theory Spec2Isabelle
  imports Main
begin

section \<open>The CouchDbSource reconciler\<close>

text \<open>
  A shallow embedding of the Go package \<open>reconciler\<close> (the CouchDbSource reconciler).
  Go functions returning \<open>(value, error)\<close> return pairs whose second component is a
  \<open>go_error option\<close> (\<open>None\<close> is \<open>nil\<close>); pointers that may be \<open>nil\<close> are options.
  Calls to the cluster clients, the lister, the sink resolver and the event recorder are
  appended to a trace, and what each of them answers is a field of the reconciler record,
  a function of the trace so far. Logger calls are left out: they return nothing and do
  not change the control flow.
\<close>

subsection \<open>Errors\<close>

text \<open>
  An error made by \<open>fmt.Errorf\<close> is kept as its format string and arguments. An API
  error of the cluster client carries its status reason. \<open>PermanentError\<close> is the
  wrapper of \<open>knative.dev/pkg/controller\<close> that tells the work queue not to requeue a
  key; this package never builds one.
\<close>

datatype status_reason = StatusReasonNotFound | StatusReasonAlreadyExists | StatusReasonConflict
  | StatusReasonInternalError

datatype go_error = Errorf string "fmt_arg list"
  | StatusError status_reason string
  | PermanentError go_error
and fmt_arg = ArgString string | ArgError "go_error option"

text \<open>\<open>apierrors.IsNotFound\<close>: the error is an API status whose reason is NotFound.\<close>

fun IsNotFound :: "go_error option \<Rightarrow> bool" where
  "IsNotFound (Some (StatusError reason msg)) = (reason = StatusReasonNotFound)"
| "IsNotFound _ = False"

text \<open>\<open>controller.IsPermanentError\<close>: the error was wrapped by \<open>NewPermanentError\<close>.\<close>

fun IsPermanentError :: "go_error \<Rightarrow> bool" where
  "IsPermanentError (PermanentError e) = True"
| "IsPermanentError _ = False"

text \<open>
  What a client call answers: an object and no error, or an error together with whatever
  object pointer came back with it.
\<close>

datatype 'a reply = Ok 'a | Failed "'a option" go_error

fun reply_val :: "'a reply \<Rightarrow> 'a option" where
  "reply_val (Ok x) = Some x"
| "reply_val (Failed x e) = x"

fun reply_err :: "'a reply \<Rightarrow> go_error option" where
  "reply_err (Ok x) = None"
| "reply_err (Failed x e) = Some e"

subsection \<open>Event types\<close>

record EventTypeSpec =
  ets_Type :: string
  ets_Source :: string
  ets_Schema :: string
  ets_Broker :: string
  ets_Description :: string

record OwnerReference =
  owner_UID :: string
  owner_Controller :: "bool option"

record EventType =
  et_Name :: string
  et_OwnerReferences :: "OwnerReference list"
  et_Spec :: EventTypeSpec

text \<open>\<open>fmt.Sprintf("%s_%s_%s_%s", Type, Source, Schema, Broker)\<close>\<close>

definition keyFromEventType :: "EventType \<Rightarrow> string" where
  "keyFromEventType eventType =
     ets_Type (et_Spec eventType) @ ''_'' @ ets_Source (et_Spec eventType) @ ''_'' @
     ets_Schema (et_Spec eventType) @ ''_'' @ ets_Broker (et_Spec eventType)"

text \<open>The loop of \<open>asMap\<close>: a later record replaces an earlier one under the same key.\<close>

fun asMap_loop :: "EventType list \<Rightarrow> (EventType \<Rightarrow> string) \<Rightarrow> (string \<rightharpoonup> EventType)
    \<Rightarrow> (string \<rightharpoonup> EventType)" where
  "asMap_loop [] keyFunc eventTypesAsMap = eventTypesAsMap"
| "asMap_loop (eventType # eventTypes) keyFunc eventTypesAsMap =
     asMap_loop eventTypes keyFunc (eventTypesAsMap(keyFunc eventType \<mapsto> eventType))"

definition asMap :: "EventType list \<Rightarrow> (EventType \<Rightarrow> string) \<Rightarrow> (string \<rightharpoonup> EventType)" where
  "asMap eventTypes keyFunc = asMap_loop eventTypes keyFunc Map.empty"

text \<open>
  The first loop of \<open>computeDiff\<close>, over \<open>expected\<close>; the state is
  \<open>(toCreate, toDelete)\<close>. \<open>equality.Semantic.DeepEqual\<close> on two specs, which hold
  strings only, is equality.
\<close>

fun computeDiff_expected :: "(string \<rightharpoonup> EventType) \<Rightarrow> EventType list
    \<Rightarrow> EventType list \<times> EventType list \<Rightarrow> EventType list \<times> EventType list" where
  "computeDiff_expected currentMap [] (toCreate, toDelete) = (toCreate, toDelete)"
| "computeDiff_expected currentMap (e # expected) (toCreate, toDelete) =
     (case currentMap (keyFromEventType e) of
        None \<Rightarrow> computeDiff_expected currentMap expected (toCreate @ [e], toDelete)
      | Some c \<Rightarrow>
          if et_Spec e \<noteq> et_Spec c
          then computeDiff_expected currentMap expected (toCreate @ [e], toDelete @ [c])
          else computeDiff_expected currentMap expected (toCreate, toDelete))"

text \<open>The second loop, over \<open>current\<close>; the state is \<open>toDelete\<close>.\<close>

fun computeDiff_current :: "(string \<rightharpoonup> EventType) \<Rightarrow> EventType list \<Rightarrow> EventType list
    \<Rightarrow> EventType list" where
  "computeDiff_current expectedMap [] toDelete = toDelete"
| "computeDiff_current expectedMap (c # current) toDelete =
     (case expectedMap (keyFromEventType c) of
        None \<Rightarrow> computeDiff_current expectedMap current (toDelete @ [c])
      | Some e \<Rightarrow> computeDiff_current expectedMap current toDelete)"

definition computeDiff :: "EventType list \<Rightarrow> EventType list \<Rightarrow> EventType list \<times> EventType list" where
  "computeDiff current expected =
     (let currentMap = asMap current keyFromEventType;
          expectedMap = asMap expected keyFromEventType;
          (toCreate, toDelete) = computeDiff_expected currentMap expected ([], [])
      in (toCreate, computeDiff_current expectedMap current toDelete))"



subsection \<open>Cluster objects\<close>

record EnvVar =
  env_Name :: string
  env_Value :: string

record Container =
  container_Name :: string
  container_Image :: string
  container_Env :: "EnvVar list"

record PodSpec =
  pod_ServiceAccountName :: string
  pod_Containers :: "Container list"

text \<open>A deployment: its metadata and \<open>Spec.Template.Spec\<close>.\<close>

record Deployment =
  dep_Name :: string
  dep_Namespace :: string
  dep_OwnerReferences :: "OwnerReference list"
  dep_Replicas :: nat
  dep_PodSpec :: PodSpec

record Secret =
  secret_Name :: string
  secret_Namespace :: string
  secret_Data :: "string \<rightharpoonup> string"

record ObjectReference =
  ref_Kind :: string
  ref_Namespace :: string
  ref_Name :: string
  ref_APIVersion :: string

text \<open>
  \<open>Spec.Sink\<close> is a pointer to a \<open>Destination\<close>, whose \<open>Ref\<close> is a pointer to an
  \<open>ObjectReference\<close>. Both kinds of object live in a store, so that a write through a
  pointer is seen through every other pointer to the same cell. Allocation takes the next
  free address.
\<close>

type_synonym addr = nat

record Destination =
  dest_Ref :: "addr option"
  dest_URI :: "string option"
  dest_DeprecatedAPIVersion :: string
  dest_DeprecatedKind :: string
  dest_DeprecatedName :: string
  dest_DeprecatedNamespace :: string

record heap =
  heap_Destinations :: "addr \<Rightarrow> Destination"
  heap_nextDestination :: addr
  heap_ObjectReferences :: "addr \<Rightarrow> ObjectReference"
  heap_nextObjectReference :: addr

record CouchDbSourceSpec =
  CouchDbCredentials :: ObjectReference
  Database :: string
  Sink :: "addr option"

text \<open>
  The status of a source is kept as the sequence of lifecycle methods applied to it: the
  methods themselves are declared in package \<open>v1alpha1\<close>.
\<close>

datatype status_call = InitializeConditions
  | MarkNoSink string string
  | MarkSinkWarnRefDeprecated string
  | MarkSink string
  | PropagateDeploymentAvailability "Deployment option"
  | MarkNoEventTypes string string
  | MarkEventTypes

record CouchDbSource =
  src_Name :: string
  src_Namespace :: string
  src_UID :: string
  src_Spec :: CouchDbSourceSpec
  src_Status :: "status_call list"

text \<open>
  \<open>metav1.IsControlledBy\<close>: the first owner reference flagged as controller has the
  owner's UID.
\<close>

fun GetControllerOf :: "OwnerReference list \<Rightarrow> OwnerReference option" where
  "GetControllerOf [] = None"
| "GetControllerOf (ref # refs) =
     (if owner_Controller ref = Some True then Some ref else GetControllerOf refs)"

definition IsControlledBy :: "OwnerReference list \<Rightarrow> CouchDbSource \<Rightarrow> bool" where
  "IsControlledBy refs owner =
     (case GetControllerOf refs of None \<Rightarrow> False | Some ref \<Rightarrow> owner_UID ref = src_UID owner)"

text \<open>
  \<open>(*Destination).DeepCopy\<close> at address \<open>a\<close>: a new \<open>Destination\<close> cell with the same
  fields, whose \<open>Ref\<close>, when there is one, points to a new copy of the
  \<open>ObjectReference\<close>.
\<close>

definition Destination_DeepCopy :: "heap \<Rightarrow> addr \<Rightarrow> addr \<times> heap" where
  "Destination_DeepCopy h a =
     (let d = heap_Destinations h a;
          (ref', h1) =
            (case dest_Ref d of
               None \<Rightarrow> (None, h)
             | Some p \<Rightarrow>
                 (let q = heap_nextObjectReference h
                  in (Some q, h\<lparr>heap_ObjectReferences :=
                                  (heap_ObjectReferences h)(q := heap_ObjectReferences h p),
                                heap_nextObjectReference := Suc q\<rparr>)));
          a' = heap_nextDestination h1
      in (a', h1\<lparr>heap_Destinations := (heap_Destinations h1)(a' := d\<lparr>dest_Ref := ref'\<rparr>),
                 heap_nextDestination := Suc a'\<rparr>))"

subsection \<open>Collaborators\<close>

type_synonym labels = "(string \<times> string) list"

datatype call = SecretsGet string string
  | DeploymentsGet string string
  | DeploymentsCreate string Deployment
  | DeploymentsUpdate string Deployment
  | Eventf string string string string "fmt_arg list"
  | EventTypesList string labels
  | EventTypesDelete string string
  | EventTypesCreate string EventType
  | URIFromDestination Destination "ObjectReference option"

text \<open>
  The fields of the \<open>Reconciler\<close> struct that the reconcile path uses. A client, lister
  or resolver is the function giving its answer from the calls made so far and the
  arguments. The resolver receives the \<open>Destination\<close> struct and what its \<open>Ref\<close>
  points to.
\<close>

record Reconciler =
  receiveAdapterImage :: string
  Secrets_Get :: "call list \<Rightarrow> string \<Rightarrow> string \<Rightarrow> Secret reply"
  Deployments_Get :: "call list \<Rightarrow> string \<Rightarrow> string \<Rightarrow> Deployment reply"
  Deployments_Create :: "call list \<Rightarrow> string \<Rightarrow> Deployment \<Rightarrow> Deployment reply"
  Deployments_Update :: "call list \<Rightarrow> string \<Rightarrow> Deployment \<Rightarrow> Deployment reply"
  EventTypes_Delete :: "call list \<Rightarrow> string \<Rightarrow> string \<Rightarrow> go_error option"
  EventTypes_Create :: "call list \<Rightarrow> string \<Rightarrow> EventType \<Rightarrow> EventType reply"
  eventTypeLister_List :: "call list \<Rightarrow> string \<Rightarrow> labels \<Rightarrow> EventType list reply"
  sinkResolver_URIFromDestination ::
    "call list \<Rightarrow> Destination \<Rightarrow> ObjectReference option \<Rightarrow> CouchDbSource \<Rightarrow> string \<times> go_error option"

record ReceiveAdapterArgs =
  args_EventSource :: string
  args_Image :: string
  args_Source :: CouchDbSource
  args_Labels :: labels
  args_SinkURI :: string

record EventTypeArgs =
  etargs_Src :: CouchDbSource
  etargs_Type :: string
  etargs_Source :: string

record URL =
  url_Scheme :: string
  url_Host :: string

text \<open>
  The functions imported from other packages, taken as parameters: package
  \<open>resources\<close> of this repository, \<open>equality.Semantic.DeepDerivative\<close> on pod specs,
  \<open>url.Parse\<close> and \<open>(*URL).Hostname\<close>, and \<open>(*Destination).GetRef\<close>, which is given
  the destination behind the pointer (\<open>None\<close> for \<open>nil\<close>) and what its \<open>Ref\<close> points
  to.
\<close>

record Imports =
  resources_Labels :: "string \<Rightarrow> labels"
  resources_MakeReceiveAdapter :: "ReceiveAdapterArgs \<Rightarrow> Deployment"
  resources_MakeEventType :: "EventTypeArgs \<Rightarrow> EventType"
  equality_DeepDerivative :: "PodSpec \<Rightarrow> PodSpec \<Rightarrow> bool"
  url_Parse :: "string \<Rightarrow> URL reply"
  url_Hostname :: "URL \<Rightarrow> string"
  Destination_GetRef :: "Destination option \<Rightarrow> ObjectReference option \<Rightarrow> ObjectReference option"

subsection \<open>Constants\<close>

definition couchdbsourceDeploymentCreated :: string where
  "couchdbsourceDeploymentCreated = ''CouchDbSourceDeploymentCreated''"

definition couchdbsourceDeploymentUpdated :: string where
  "couchdbsourceDeploymentUpdated = ''CouchDbSourceDeploymentUpdated''"

definition EventTypeNormal :: string where
  "EventTypeNormal = ''Normal''"

text \<open>
  Modelled from the spec: the declarations of \<open>CouchDbSourceUpdateEventType\<close> and
  \<open>CouchDbSourceDeleteEventType\<close> (package \<open>v1alpha1\<close>) are not in the sources; the
  spec names the two kinds "updated" and "deleted".
\<close>

definition CouchDbSourceUpdateEventType :: string where
  "CouchDbSourceUpdateEventType = ''updated''"

definition CouchDbSourceDeleteEventType :: string where
  "CouchDbSourceDeleteEventType = ''deleted''"

definition couchDbEventTypes :: "string list" where
  "couchDbEventTypes = [CouchDbSourceUpdateEventType, CouchDbSourceDeleteEventType]"

subsection \<open>The event source\<close>

text \<open>
  \<open>makeEventSource\<close>. Where the secret has no \<open>url\<close> key the function returns its
  variable \<open>err\<close>, which holds \<open>nil\<close> after the successful lookup.
\<close>

definition makeEventSource :: "Imports \<Rightarrow> Reconciler \<Rightarrow> CouchDbSource \<Rightarrow> call list
    \<Rightarrow> (string \<times> go_error option) \<times> call list" where
  "makeEventSource imp r src tr =
     (let namespace = (if ref_Namespace (CouchDbCredentials (src_Spec src)) = ''''
                       then src_Namespace src
                       else ref_Namespace (CouchDbCredentials (src_Spec src)));
          name = ref_Name (CouchDbCredentials (src_Spec src));
          tr' = tr @ [SecretsGet namespace name]
      in case Secrets_Get r tr namespace name of
           Failed secret err \<Rightarrow> (('''', Some err), tr')
         | Ok secret \<Rightarrow>
             (case secret_Data secret ''url'' of
                None \<Rightarrow> (('''', None), tr')
              | Some rawurl \<Rightarrow>
                  (case url_Parse imp rawurl of
                     Failed u err \<Rightarrow> (('''', Some err), tr')
                   | Ok u \<Rightarrow>
                       ((url_Hostname imp u @ ''/'' @ Database (src_Spec src), None), tr'))))"

subsection \<open>The receive adapter\<close>

text \<open>
  The loop of \<open>podSpecChanged\<close> over the indices of the new containers. It runs only
  when both lists have the same length. \<open>DeepEqual\<close> on two lists of environment
  variables is equality.
\<close>

fun podSpecChanged_loop :: "nat list \<Rightarrow> Container list \<Rightarrow> Container list \<Rightarrow> bool" where
  "podSpecChanged_loop [] oldContainers newContainers = False"
| "podSpecChanged_loop (i # is) oldContainers newContainers =
     (if container_Env (newContainers ! i) \<noteq> container_Env (oldContainers ! i) then True
      else podSpecChanged_loop is oldContainers newContainers)"

definition podSpecChanged :: "Imports \<Rightarrow> PodSpec \<Rightarrow> PodSpec \<Rightarrow> bool" where
  "podSpecChanged imp oldPodSpec newPodSpec =
     (if \<not> equality_DeepDerivative imp newPodSpec oldPodSpec then True
      else if length (pod_Containers oldPodSpec) \<noteq> length (pod_Containers newPodSpec) then True
      else podSpecChanged_loop [0..<length (pod_Containers newPodSpec)]
             (pod_Containers oldPodSpec) (pod_Containers newPodSpec))"

text \<open>The deployment that \<open>createReceiveAdapter\<close> builds from its arguments.\<close>

definition expectedDeployment :: "Imports \<Rightarrow> Reconciler \<Rightarrow> CouchDbSource \<Rightarrow> string \<Rightarrow> string
    \<Rightarrow> Deployment" where
  "expectedDeployment imp r src sinkURI eventSource =
     (let adapterArgs = \<lparr>args_EventSource = eventSource,
                         args_Image = receiveAdapterImage r,
                         args_Source = src,
                         args_Labels = resources_Labels imp (src_Name src),
                         args_SinkURI = sinkURI\<rparr>
      in resources_MakeReceiveAdapter imp adapterArgs)"

text \<open>
  \<open>createReceiveAdapter\<close> from the point where the event source is known: build the
  expected deployment, look the existing one up, then create, refuse, update or reuse.
\<close>

definition createReceiveAdapter_with :: "Imports \<Rightarrow> Reconciler \<Rightarrow> CouchDbSource \<Rightarrow> string
    \<Rightarrow> string \<Rightarrow> call list \<Rightarrow> (Deployment option \<times> go_error option) \<times> call list" where
  "createReceiveAdapter_with imp r src sinkURI eventSource tr1 =
     (let expected = expectedDeployment imp r src sinkURI eventSource;
          ns = src_Namespace src;
          tr2 = tr1 @ [DeploymentsGet ns (dep_Name expected)]
      in case Deployments_Get r tr1 ns (dep_Name expected) of
           Failed ra err \<Rightarrow>
             if IsNotFound (Some err) then
               (let created = Deployments_Create r tr2 ns expected;
                    tr3 = tr2 @ [DeploymentsCreate ns expected];
                    tr4 = tr3 @ [Eventf (src_Name src) EventTypeNormal
                                   couchdbsourceDeploymentCreated
                                   ''Deployment created, error: %v''
                                   [ArgError (reply_err created)]]
                in ((reply_val created, reply_err created), tr4))
             else ((None, Some (Errorf ''error getting receive adapter: %v''
                                  [ArgError (Some err)])), tr2)
         | Ok ra \<Rightarrow>
             if \<not> IsControlledBy (dep_OwnerReferences ra) src then
               ((None, Some (Errorf ''deployment %q is not owned by CouchDbSource %q''
                               [ArgString (dep_Name ra), ArgString (src_Name src)])), tr2)
             else if podSpecChanged imp (dep_PodSpec ra) (dep_PodSpec expected) then
               (let ra' = ra\<lparr>dep_PodSpec := dep_PodSpec expected\<rparr>;
                    tr3 = tr2 @ [DeploymentsUpdate ns ra']
                in case Deployments_Update r tr2 ns ra' of
                     Failed updated err \<Rightarrow> ((updated, Some err), tr3)
                   | Ok updated \<Rightarrow>
                       ((Some updated, None),
                        tr3 @ [Eventf (src_Name src) EventTypeNormal
                                 couchdbsourceDeploymentUpdated ''Deployment updated'' []]))
             else ((Some ra, None), tr2))"

definition createReceiveAdapter :: "Imports \<Rightarrow> Reconciler \<Rightarrow> CouchDbSource \<Rightarrow> string \<Rightarrow> call list
    \<Rightarrow> (Deployment option \<times> go_error option) \<times> call list" where
  "createReceiveAdapter imp r src sinkURI tr =
     (case makeEventSource imp r src tr of
        ((eventSource, Some err), tr1) \<Rightarrow> ((None, Some err), tr1)
      | ((eventSource, None), tr1) \<Rightarrow>
          createReceiveAdapter_with imp r src sinkURI eventSource tr1)"

subsection \<open>Event types of a source\<close>

definition getLabelSelector :: "Imports \<Rightarrow> CouchDbSource \<Rightarrow> labels" where
  "getLabelSelector imp src = resources_Labels imp (src_Name src)"

definition getEventTypes :: "Imports \<Rightarrow> Reconciler \<Rightarrow> CouchDbSource \<Rightarrow> call list
    \<Rightarrow> (EventType list \<times> go_error option) \<times> call list" where
  "getEventTypes imp r src tr =
     (let selector = getLabelSelector imp src;
          tr' = tr @ [EventTypesList (src_Namespace src) selector]
      in case eventTypeLister_List r tr (src_Namespace src) selector of
           Failed etl err \<Rightarrow> (([], Some err), tr')
         | Ok etl \<Rightarrow>
             ((filter (\<lambda>et. IsControlledBy (et_OwnerReferences et) src) etl, None), tr'))"

text \<open>The loop of \<open>makeEventTypes\<close> over \<open>couchDbEventTypes\<close>.\<close>

fun makeEventTypes_loop :: "Imports \<Rightarrow> CouchDbSource \<Rightarrow> string \<Rightarrow> string list \<Rightarrow> EventType list
    \<Rightarrow> EventType list" where
  "makeEventTypes_loop imp src source [] eventTypes = eventTypes"
| "makeEventTypes_loop imp src source (apiEventType # rest) eventTypes =
     makeEventTypes_loop imp src source rest
       (eventTypes @ [resources_MakeEventType imp
          \<lparr>etargs_Src = src, etargs_Type = apiEventType, etargs_Source = source\<rparr>])"

text \<open>What \<open>src.Spec.Sink.GetRef()\<close> returns in heap \<open>h\<close>.\<close>

definition sinkRef :: "Imports \<Rightarrow> heap \<Rightarrow> CouchDbSource \<Rightarrow> ObjectReference option" where
  "sinkRef imp h src =
     (case Sink (src_Spec src) of
        None \<Rightarrow> Destination_GetRef imp None None
      | Some a \<Rightarrow>
          Destination_GetRef imp (Some (heap_Destinations h a))
            (map_option (heap_ObjectReferences h) (dest_Ref (heap_Destinations h a))))"

definition makeEventTypes :: "Imports \<Rightarrow> Reconciler \<Rightarrow> heap \<Rightarrow> CouchDbSource \<Rightarrow> call list
    \<Rightarrow> (EventType list \<times> go_error option) \<times> call list" where
  "makeEventTypes imp r h src tr =
     (case sinkRef imp h src of
        None \<Rightarrow> (([], None), tr)
      | Some ref \<Rightarrow>
          if ref_Kind ref \<noteq> ''Broker'' then (([], None), tr)
          else
            (case makeEventSource imp r src tr of
               ((source, Some err), tr1) \<Rightarrow> (([], Some err), tr1)
             | ((source, None), tr1) \<Rightarrow>
                 ((makeEventTypes_loop imp src source couchDbEventTypes [], None), tr1)))"

text \<open>
  The two loops of \<open>reconcileEventTypes\<close>. Each returns the variable \<open>err\<close> and the
  trace; \<open>Some err\<close> is the early return.
\<close>

fun reconcileEventTypes_delete :: "Reconciler \<Rightarrow> string \<Rightarrow> EventType list \<Rightarrow> call list
    \<Rightarrow> go_error option \<times> call list" where
  "reconcileEventTypes_delete r ns [] tr = (None, tr)"
| "reconcileEventTypes_delete r ns (eventType # toDelete) tr =
     (case EventTypes_Delete r tr ns (et_Name eventType) of
        Some err \<Rightarrow> (Some err, tr @ [EventTypesDelete ns (et_Name eventType)])
      | None \<Rightarrow>
          reconcileEventTypes_delete r ns toDelete (tr @ [EventTypesDelete ns (et_Name eventType)]))"

fun reconcileEventTypes_create :: "Reconciler \<Rightarrow> string \<Rightarrow> EventType list \<Rightarrow> call list
    \<Rightarrow> go_error option \<times> call list" where
  "reconcileEventTypes_create r ns [] tr = (None, tr)"
| "reconcileEventTypes_create r ns (eventType # toCreate) tr =
     (case reply_err (EventTypes_Create r tr ns eventType) of
        Some err \<Rightarrow> (Some err, tr @ [EventTypesCreate ns eventType])
      | None \<Rightarrow>
          reconcileEventTypes_create r ns toCreate (tr @ [EventTypesCreate ns eventType]))"

definition reconcileEventTypes :: "Imports \<Rightarrow> Reconciler \<Rightarrow> heap \<Rightarrow> CouchDbSource \<Rightarrow> call list
    \<Rightarrow> go_error option \<times> call list" where
  "reconcileEventTypes imp r h src tr =
     (case getEventTypes imp r src tr of
        ((current, Some err), tr1) \<Rightarrow> (Some err, tr1)
      | ((current, None), tr1) \<Rightarrow>
          (case makeEventTypes imp r h src tr1 of
             ((expected, Some err), tr2) \<Rightarrow> (Some err, tr2)
           | ((expected, None), tr2) \<Rightarrow>
               (let (toCreate, toDelete) = computeDiff current expected
                in case reconcileEventTypes_delete r (src_Namespace src) toDelete tr2 of
                     (Some err, tr3) \<Rightarrow> (Some err, tr3)
                   | (None, tr3) \<Rightarrow>
                       reconcileEventTypes_create r (src_Namespace src) toCreate tr3)))"

subsection \<open>The reconcile pass\<close>

text \<open>
  The namespace defaulting of \<open>ReconcileKind\<close> on the copy at address \<open>da\<close>: the two
  assignments \<open>dest.Ref.Namespace = \<dots>\<close> and \<open>dest.DeprecatedNamespace = \<dots>\<close> write
  into the store.
\<close>

definition defaultNamespace :: "heap \<Rightarrow> addr \<Rightarrow> string \<Rightarrow> heap" where
  "defaultNamespace h da namespace =
     (let dest = heap_Destinations h da
      in case dest_Ref dest of
           Some p \<Rightarrow>
             if ref_Namespace (heap_ObjectReferences h p) = ''''
             then h\<lparr>heap_ObjectReferences :=
                      (heap_ObjectReferences h)
                        (p := (heap_ObjectReferences h p)\<lparr>ref_Namespace := namespace\<rparr>)\<rparr>
             else h
         | None \<Rightarrow>
             if dest_DeprecatedName dest \<noteq> '''' \<and> dest_DeprecatedNamespace dest = ''''
             then h\<lparr>heap_Destinations :=
                      (heap_Destinations h)(da := dest\<lparr>dest_DeprecatedNamespace := namespace\<rparr>)\<rparr>
             else h)"

definition markStatus :: "CouchDbSource \<Rightarrow> status_call \<Rightarrow> CouchDbSource" where
  "markStatus source c = source\<lparr>src_Status := src_Status source @ [c]\<rparr>"

text \<open>
  The branch of \<open>ReconcileKind\<close> on the deprecated fields of \<open>source.Spec.Sink\<close>,
  once the sink URI is known.
\<close>

definition markSinkResolved :: "Destination \<Rightarrow> CouchDbSource \<Rightarrow> string \<Rightarrow> CouchDbSource" where
  "markSinkResolved sink source sinkURI =
     (if dest_DeprecatedAPIVersion sink \<noteq> '''' \<and>
         dest_DeprecatedKind sink \<noteq> '''' \<and>
         dest_DeprecatedName sink \<noteq> ''''
      then markStatus source (MarkSinkWarnRefDeprecated sinkURI)
      else markStatus source (MarkSink sinkURI))"

text \<open>
  \<open>ReconcileKind\<close> returns the event (\<open>None\<close> is \<open>nil\<close>), the source as the pass
  leaves it, the heap and the trace. \<open>ReconcileKind_resolved\<close> is the part that follows
  the resolution of the sink, for the sink at address \<open>sa\<close>.
\<close>

definition ReconcileKind_resolved :: "Imports \<Rightarrow> Reconciler \<Rightarrow> heap \<Rightarrow> addr \<Rightarrow> CouchDbSource
    \<Rightarrow> string \<Rightarrow> call list \<Rightarrow> go_error option \<times> CouchDbSource \<times> heap \<times> call list" where
  "ReconcileKind_resolved imp r h2 sa source sinkURI tr1 =
     (let source1 = markSinkResolved (heap_Destinations h2 sa) source sinkURI
      in case createReceiveAdapter imp r source1 sinkURI tr1 of
           ((ra, Some err), tr2) \<Rightarrow> (Some err, source1, h2, tr2)
         | ((ra, None), tr2) \<Rightarrow>
             (let source2 = markStatus source1 (PropagateDeploymentAvailability ra)
              in case reconcileEventTypes imp r h2 source2 tr2 of
                   (Some err, tr3) \<Rightarrow>
                     (Some err,
                      markStatus source2 (MarkNoEventTypes ''EventTypesReconcileFailed'' ''''),
                      h2, tr3)
                 | (None, tr3) \<Rightarrow> (None, markStatus source2 MarkEventTypes, h2, tr3)))"

definition ReconcileKind :: "Imports \<Rightarrow> Reconciler \<Rightarrow> heap \<Rightarrow> CouchDbSource \<Rightarrow> call list
    \<Rightarrow> go_error option \<times> CouchDbSource \<times> heap \<times> call list" where
  "ReconcileKind imp r h source0 tr =
     (let source = markStatus source0 InitializeConditions
      in case Sink (src_Spec source) of
           None \<Rightarrow>
             (Some (Errorf ''spec.sink missing'' []),
              markStatus source (MarkNoSink ''SinkMissing'' ''''), h, tr)
         | Some sa \<Rightarrow>
             (let (da, h1) = Destination_DeepCopy h sa;
                  h2 = defaultNamespace h1 da (src_Namespace source);
                  dest = heap_Destinations h2 da;
                  pointee = map_option (heap_ObjectReferences h2) (dest_Ref dest);
                  tr1 = tr @ [URIFromDestination dest pointee]
              in case sinkResolver_URIFromDestination r tr dest pointee source of
                   (sinkURI, Some err) \<Rightarrow>
                     (Some (Errorf ''getting sink URI: %v'' [ArgError (Some err)]),
                      markStatus source (MarkNoSink ''NotFound'' ''''), h2, tr1)
                 | (sinkURI, None) \<Rightarrow>
                     ReconcileKind_resolved imp r h2 sa source sinkURI tr1))"

subsection \<open>Notions used in the statements\<close>



text \<open>The create and update calls on deployments in a trace.\<close>

fun isDeploymentWrite :: "call \<Rightarrow> bool" where
  "isDeploymentWrite (DeploymentsCreate ns d) = True"
| "isDeploymentWrite (DeploymentsUpdate ns d) = True"
| "isDeploymentWrite _ = False"

definition deploymentWrites :: "call list \<Rightarrow> call list" where
  "deploymentWrites tr = filter isDeploymentWrite tr"

text \<open>
  Drift between the pod spec of the existing deployment and the expected one: the expected
  pod spec is not a deep derivative of the existing one, or the numbers of containers
  differ, or the environment lists of two containers at the same index differ.
\<close>

definition podSpecDrift :: "Imports \<Rightarrow> PodSpec \<Rightarrow> PodSpec \<Rightarrow> bool" where
  "podSpecDrift imp oldPodSpec newPodSpec \<longleftrightarrow>
     \<not> equality_DeepDerivative imp newPodSpec oldPodSpec \<or>
     length (pod_Containers oldPodSpec) \<noteq> length (pod_Containers newPodSpec) \<or>
     (\<exists>i \<in> {0..<length (pod_Containers newPodSpec)}.
        container_Env (pod_Containers newPodSpec ! i) \<noteq>
        container_Env (pod_Containers oldPodSpec ! i))"

text \<open>
  Applying a list of event type operations in order, stopping at the first one that
  fails: the error a delete or create call answers after a given trace, and the run.
\<close>

fun answer :: "Reconciler \<Rightarrow> call list \<Rightarrow> call \<Rightarrow> go_error option" where
  "answer r tr (EventTypesDelete ns name) = EventTypes_Delete r tr ns name"
| "answer r tr (EventTypesCreate ns eventType) = reply_err (EventTypes_Create r tr ns eventType)"
| "answer r tr _ = None"

fun applyInOrder :: "Reconciler \<Rightarrow> call list \<Rightarrow> call list \<Rightarrow> go_error option \<times> call list" where
  "applyInOrder r [] tr = (None, tr)"
| "applyInOrder r (operation # operations) tr =
     (case answer r tr operation of
        Some err \<Rightarrow> (Some err, tr @ [operation])
      | None \<Rightarrow> applyInOrder r operations (tr @ [operation]))"

text \<open>The namespace in which \<open>makeEventSource\<close> looks the credentials secret up.\<close>

definition credentialsNamespace :: "CouchDbSource \<Rightarrow> string" where
  "credentialsNamespace src =
     (if ref_Namespace (CouchDbCredentials (src_Spec src)) = '''' then src_Namespace src
      else ref_Namespace (CouchDbCredentials (src_Spec src)))"

text \<open>
  What \<open>source.Spec.Sink\<close> holds in a heap, read through both pointers; and the
  condition that both pointers point to allocated cells.
\<close>

definition sinkValue :: "heap \<Rightarrow> CouchDbSource \<Rightarrow> (Destination \<times> ObjectReference option) option" where
  "sinkValue h src =
     map_option
       (\<lambda>a. (heap_Destinations h a,
              map_option (heap_ObjectReferences h) (dest_Ref (heap_Destinations h a))))
       (Sink (src_Spec src))"

definition sinkAllocated :: "heap \<Rightarrow> CouchDbSource \<Rightarrow> bool" where
  "sinkAllocated h src \<longleftrightarrow>
     (case Sink (src_Spec src) of
        None \<Rightarrow> True
      | Some a \<Rightarrow>
          a < heap_nextDestination h \<and>
          (case dest_Ref (heap_Destinations h a) of
             None \<Rightarrow> True
           | Some p \<Rightarrow> p < heap_nextObjectReference h))"

subsection \<open>An instance of the imported functions\<close>

text \<open>
  \<open>DeepDerivative\<close> of the Kubernetes API machinery on the pod spec fields modelled here:
  an empty string or an empty slice in the first argument is unset and matches anything,
  a slice longer than the other one does not match, and otherwise the elements of the
  first slice are compared with the elements of the second at the same index.
\<close>

definition DeepDerivative_string :: "string \<Rightarrow> string \<Rightarrow> bool" where
  "DeepDerivative_string a1 a2 \<longleftrightarrow> a1 = '''' \<or> a1 = a2"

fun DeepDerivative_slice :: "('a \<Rightarrow> 'a \<Rightarrow> bool) \<Rightarrow> 'a list \<Rightarrow> 'a list \<Rightarrow> bool" where
  "DeepDerivative_slice d [] a2 = True"
| "DeepDerivative_slice d (x # a1) [] = False"
| "DeepDerivative_slice d (x # a1) (y # a2) = (d x y \<and> DeepDerivative_slice d a1 a2)"

definition DeepDerivative_EnvVar :: "EnvVar \<Rightarrow> EnvVar \<Rightarrow> bool" where
  "DeepDerivative_EnvVar a1 a2 \<longleftrightarrow>
     DeepDerivative_string (env_Name a1) (env_Name a2) \<and>
     DeepDerivative_string (env_Value a1) (env_Value a2)"

definition DeepDerivative_Container :: "Container \<Rightarrow> Container \<Rightarrow> bool" where
  "DeepDerivative_Container a1 a2 \<longleftrightarrow>
     DeepDerivative_string (container_Name a1) (container_Name a2) \<and>
     DeepDerivative_string (container_Image a1) (container_Image a2) \<and>
     DeepDerivative_slice DeepDerivative_EnvVar (container_Env a1) (container_Env a2)"

definition DeepDerivative_PodSpec :: "PodSpec \<Rightarrow> PodSpec \<Rightarrow> bool" where
  "DeepDerivative_PodSpec a1 a2 \<longleftrightarrow>
     DeepDerivative_string (pod_ServiceAccountName a1) (pod_ServiceAccountName a2) \<and>
     DeepDerivative_slice DeepDerivative_Container (pod_Containers a1) (pod_Containers a2)"

text \<open>
  \<open>GetRef\<close> of a destination: \<open>nil\<close> for a \<open>nil\<close> destination, the \<open>Ref\<close> when
  there is one, else the reference made of the deprecated fields unless all are empty.
\<close>

definition GetRef :: "Destination option \<Rightarrow> ObjectReference option \<Rightarrow> ObjectReference option" where
  "GetRef dest pointee =
     (case dest of
        None \<Rightarrow> None
      | Some d \<Rightarrow>
          (case dest_Ref d of
             Some p \<Rightarrow> pointee
           | None \<Rightarrow>
               if dest_DeprecatedAPIVersion d = '''' \<and> dest_DeprecatedKind d = '''' \<and>
                  dest_DeprecatedName d = '''' \<and> dest_DeprecatedNamespace d = ''''
               then None
               else Some \<lparr>ref_Kind = dest_DeprecatedKind d,
                          ref_Namespace = dest_DeprecatedNamespace d,
                          ref_Name = dest_DeprecatedName d,
                          ref_APIVersion = dest_DeprecatedAPIVersion d\<rparr>))"

text \<open>
  Stand-ins for package \<open>resources\<close> and for \<open>url.Parse\<close>, to run the model on
  examples: a deployment with one container owned by the source, an event type owned by
  the source for the broker \<open>default\<close>, and the parse of the one URL used below.
\<close>

definition ex_Labels :: "string \<Rightarrow> labels" where
  "ex_Labels name = [(''knative-eventing-source'', ''couchdb-source-controller''),
                     (''knative-eventing-source-name'', name)]"

definition ex_MakeReceiveAdapter :: "ReceiveAdapterArgs \<Rightarrow> Deployment" where
  "ex_MakeReceiveAdapter args =
     \<lparr>dep_Name = ''couchdbsource-'' @ src_Name (args_Source args),
      dep_Namespace = src_Namespace (args_Source args),
      dep_OwnerReferences =
        [\<lparr>owner_UID = src_UID (args_Source args), owner_Controller = Some True\<rparr>],
      dep_Replicas = 1,
      dep_PodSpec =
        \<lparr>pod_ServiceAccountName = ''couchdb-source'',
         pod_Containers =
           [\<lparr>container_Name = ''receive-adapter'',
             container_Image = args_Image args,
             container_Env =
               [\<lparr>env_Name = ''EVENT_SOURCE'', env_Value = args_EventSource args\<rparr>,
                \<lparr>env_Name = ''SINK_URI'', env_Value = args_SinkURI args\<rparr>]\<rparr>]\<rparr>\<rparr>"

definition ex_MakeEventType :: "EventTypeArgs \<Rightarrow> EventType" where
  "ex_MakeEventType args =
     \<lparr>et_Name = etargs_Type args @ ''-'' @ src_Name (etargs_Src args),
      et_OwnerReferences =
        [\<lparr>owner_UID = src_UID (etargs_Src args), owner_Controller = Some True\<rparr>],
      et_Spec = \<lparr>ets_Type = etargs_Type args, ets_Source = etargs_Source args,
                 ets_Schema = '''', ets_Broker = ''default'', ets_Description = ''''\<rparr>\<rparr>"

definition ex_Parse :: "string \<Rightarrow> URL reply" where
  "ex_Parse rawurl =
     (if rawurl = ''http://couchdb:5984''
      then Ok \<lparr>url_Scheme = ''http'', url_Host = ''couchdb:5984''\<rparr>
      else Failed None (Errorf ''parse %q: invalid URI'' [ArgString rawurl]))"

definition ex_Hostname :: "URL \<Rightarrow> string" where
  "ex_Hostname u = takeWhile (\<lambda>c. c \<noteq> CHR '':'') (url_Host u)"

definition ex_imports :: Imports where
  "ex_imports =
     \<lparr>resources_Labels = ex_Labels,
      resources_MakeReceiveAdapter = ex_MakeReceiveAdapter,
      resources_MakeEventType = ex_MakeEventType,
      equality_DeepDerivative = DeepDerivative_PodSpec,
      url_Parse = ex_Parse,
      url_Hostname = ex_Hostname,
      Destination_GetRef = GetRef\<rparr>"

subsection \<open>An example cluster\<close>

text \<open>
  A source \<open>orders\<close> in namespace \<open>default\<close> whose sink is a reference, without
  namespace, to the broker \<open>default\<close>; and the same source without a sink.
\<close>

definition ex_noDestination :: Destination where
  "ex_noDestination =
     \<lparr>dest_Ref = None, dest_URI = None, dest_DeprecatedAPIVersion = '''',
      dest_DeprecatedKind = '''', dest_DeprecatedName = '''', dest_DeprecatedNamespace = ''''\<rparr>"

definition ex_noReference :: ObjectReference where
  "ex_noReference = \<lparr>ref_Kind = '''', ref_Namespace = '''', ref_Name = '''', ref_APIVersion = ''''\<rparr>"

definition ex_brokerReference :: ObjectReference where
  "ex_brokerReference =
     \<lparr>ref_Kind = ''Broker'', ref_Namespace = '''', ref_Name = ''default'',
      ref_APIVersion = ''eventing.knative.dev/v1alpha1''\<rparr>"

definition ex_heap :: heap where
  "ex_heap =
     \<lparr>heap_Destinations = (\<lambda>a. ex_noDestination)(0 := ex_noDestination\<lparr>dest_Ref := Some 0\<rparr>),
      heap_nextDestination = 1,
      heap_ObjectReferences = (\<lambda>a. ex_noReference)(0 := ex_brokerReference),
      heap_nextObjectReference = 1\<rparr>"

definition ex_source :: CouchDbSource where
  "ex_source =
     \<lparr>src_Name = ''orders'', src_Namespace = ''default'', src_UID = ''uid-orders'',
      src_Spec = \<lparr>CouchDbCredentials =
                    \<lparr>ref_Kind = ''Secret'', ref_Namespace = '''', ref_Name = ''couchdb-credentials'',
                     ref_APIVersion = ''v1''\<rparr>,
                  Database = ''orders'', Sink = Some 0\<rparr>,
      src_Status = []\<rparr>"

definition ex_sourceNoSink :: CouchDbSource where
  "ex_sourceNoSink = ex_source\<lparr>src_Spec := (src_Spec ex_source)\<lparr>Sink := None\<rparr>\<rparr>"

text \<open>
  A cluster where the credentials secret holds the URL, no deployment and no event type
  exists, and every write succeeds.
\<close>

definition ex_secret :: Secret where
  "ex_secret =
     \<lparr>secret_Name = ''couchdb-credentials'', secret_Namespace = ''default'',
      secret_Data = [''url'' \<mapsto> ''http://couchdb:5984'']\<rparr>"

definition ex_notFound :: go_error where
  "ex_notFound = StatusError StatusReasonNotFound ''not found''"

definition ex_reconciler :: Reconciler where
  "ex_reconciler =
     \<lparr>receiveAdapterImage = ''couchdb-receive-adapter:latest'',
      Secrets_Get = (\<lambda>tr ns name. Ok ex_secret),
      Deployments_Get = (\<lambda>tr ns name. Failed None ex_notFound),
      Deployments_Create = (\<lambda>tr ns d. Ok d),
      Deployments_Update = (\<lambda>tr ns d. Ok d),
      EventTypes_Delete = (\<lambda>tr ns name. None),
      EventTypes_Create = (\<lambda>tr ns et. Ok et),
      eventTypeLister_List = (\<lambda>tr ns selector. Ok []),
      sinkResolver_URIFromDestination = (\<lambda>tr dest pointee source. (''http://broker.default'', None))\<rparr>"

text \<open>The deployment expected for the example source, and existing deployments.\<close>

definition ex_sinkURI :: string where
  "ex_sinkURI = ''http://broker.default''"

definition ex_expected :: Deployment where
  "ex_expected = expectedDeployment ex_imports ex_reconciler ex_source ex_sinkURI ''couchdb/orders''"

definition ex_sidecar :: Container where
  "ex_sidecar = \<lparr>container_Name = ''proxy'', container_Image = ''proxy:1'', container_Env = []\<rparr>"

definition ex_withSidecar :: Deployment where
  "ex_withSidecar =
     ex_expected\<lparr>dep_PodSpec :=
       (dep_PodSpec ex_expected)\<lparr>pod_Containers :=
          pod_Containers (dep_PodSpec ex_expected) @ [ex_sidecar]\<rparr>\<rparr>"

definition ex_oldSink :: Deployment where
  "ex_oldSink =
     expectedDeployment ex_imports ex_reconciler ex_source ''http://old.default'' ''couchdb/orders''"

definition ex_foreign :: Deployment where
  "ex_foreign =
     ex_expected\<lparr>dep_OwnerReferences :=
       [\<lparr>owner_UID = ''uid-payments'', owner_Controller = Some True\<rparr>]\<rparr>"

definition ex_reconciler_existing :: "Deployment \<Rightarrow> Reconciler" where
  "ex_reconciler_existing d = ex_reconciler\<lparr>Deployments_Get := (\<lambda>tr ns name. Ok d)\<rparr>"

text \<open>Clusters where a call fails or the secret has no \<open>url\<close> key.\<close>

definition ex_internalError :: go_error where
  "ex_internalError = StatusError StatusReasonInternalError ''etcd unavailable''"

definition ex_alreadyExists :: go_error where
  "ex_alreadyExists = StatusError StatusReasonAlreadyExists ''already exists''"

definition ex_reconciler_noSecret :: Reconciler where
  "ex_reconciler_noSecret = ex_reconciler\<lparr>Secrets_Get := (\<lambda>tr ns name. Failed None ex_notFound)\<rparr>"

definition ex_reconciler_noUrl :: Reconciler where
  "ex_reconciler_noUrl =
     ex_reconciler\<lparr>Secrets_Get := (\<lambda>tr ns name. Ok (ex_secret\<lparr>secret_Data := Map.empty\<rparr>))\<rparr>"

definition ex_reconciler_createFails :: Reconciler where
  "ex_reconciler_createFails =
     ex_reconciler\<lparr>Deployments_Create := (\<lambda>tr ns d. Failed None ex_internalError)\<rparr>"

text \<open>Event types: the two expected for the example source, and records found in the cluster.\<close>

definition ex_updated :: EventType where
  "ex_updated =
     \<lparr>et_Name = ''updated-orders'',
      et_OwnerReferences = [\<lparr>owner_UID = ''uid-orders'', owner_Controller = Some True\<rparr>],
      et_Spec = \<lparr>ets_Type = ''updated'', ets_Source = ''couchdb/orders'',
                 ets_Schema = '''', ets_Broker = ''default'', ets_Description = ''''\<rparr>\<rparr>"

definition ex_deleted :: EventType where
  "ex_deleted =
     \<lparr>et_Name = ''deleted-orders'',
      et_OwnerReferences = [\<lparr>owner_UID = ''uid-orders'', owner_Controller = Some True\<rparr>],
      et_Spec = \<lparr>ets_Type = ''deleted'', ets_Source = ''couchdb/orders'',
                 ets_Schema = '''', ets_Broker = ''default'', ets_Description = ''''\<rparr>\<rparr>"

definition ex_updatedOld :: EventType where
  "ex_updatedOld = ex_updated\<lparr>et_Spec := (et_Spec ex_updated)\<lparr>ets_Description := ''old''\<rparr>\<rparr>"

definition ex_retired :: EventType where
  "ex_retired =
     \<lparr>et_Name = ''created-orders'',
      et_OwnerReferences = [\<lparr>owner_UID = ''uid-orders'', owner_Controller = Some True\<rparr>],
      et_Spec = \<lparr>ets_Type = ''created'', ets_Source = ''couchdb/orders'',
                 ets_Schema = '''', ets_Broker = ''default'', ets_Description = ''''\<rparr>\<rparr>"

definition ex_reconciler_listed :: Reconciler where
  "ex_reconciler_listed =
     ex_reconciler\<lparr>eventTypeLister_List := (\<lambda>tr ns selector. Ok [ex_updatedOld, ex_retired])\<rparr>"

definition ex_reconciler_listedCreateFails :: Reconciler where
  "ex_reconciler_listedCreateFails =
     ex_reconciler_listed\<lparr>EventTypes_Create :=
       (\<lambda>tr ns et. if et_Name et = ''updated-orders'' then Failed None ex_alreadyExists
                    else Ok et)\<rparr>"



text \<open>The example heap with a sink that refers to a service instead of a broker.\<close>

definition ex_heapService :: heap where
  "ex_heapService =
     ex_heap\<lparr>heap_ObjectReferences :=
       (heap_ObjectReferences ex_heap)
         (0 := ex_brokerReference\<lparr>ref_Kind := ''Service'', ref_Name := ''sink''\<rparr>)\<rparr>"

section \<open>Properties\<close>

subsection \<open>The diff of event types\<close>

lemma asMap_loop_None:
  "asMap_loop xs k m s = None \<longleftrightarrow> m s = None \<and> s \<notin> k ` set xs"
  by (induction xs arbitrary: m) auto


lemma computeDiff_current_eq:
  "computeDiff_current em cs td = td @ filter (\<lambda>c. em (keyFromEventType c) = None) cs"
  by (induction cs arbitrary: td) (auto split: option.splits)


lemma asMap_None_iff: "asMap xs k s = None \<longleftrightarrow> s \<notin> k ` set xs"
  by (simp add: asMap_def asMap_loop_None)

lemma computeDiff_nothing_expected: "computeDiff current [] = ([], current)"
  by (simp add: computeDiff_def asMap_def computeDiff_current_eq)

lemma makeEventTypes_loop_eq:
  "makeEventTypes_loop imp src source ts acc =
     acc @ map (\<lambda>t. resources_MakeEventType imp
                  \<lparr>etargs_Src = src, etargs_Type = t, etargs_Source = source\<rparr>) ts"
  by (induction ts arbitrary: acc) simp_all

subsection \<open>Traces of the receive adapter\<close>

lemma makeEventSource_trace:
  "snd (makeEventSource imp r src tr) =
     tr @ [SecretsGet (credentialsNamespace src) (ref_Name (CouchDbCredentials (src_Spec src)))]"
  by (simp add: makeEventSource_def credentialsNamespace_def Let_def
      split: reply.splits option.splits)

lemma deploymentWrites_append:
  "deploymentWrites (tr @ ext) = deploymentWrites tr @ deploymentWrites ext"
  by (simp add: deploymentWrites_def)

lemma makeEventSource_writes:
  assumes "makeEventSource imp r src tr = (res, tr1)"
  shows "deploymentWrites tr1 = deploymentWrites tr"
proof -
  from assms have "tr1 = snd (makeEventSource imp r src tr)" by simp
  then show ?thesis
    by (simp add: makeEventSource_trace deploymentWrites_append) (simp add: deploymentWrites_def)
qed

lemma podSpecChanged_loop_iff:
  "podSpecChanged_loop is old new \<longleftrightarrow>
     (\<exists>i \<in> set is. container_Env (new ! i) \<noteq> container_Env (old ! i))"
  by (induction "is") auto

lemma podSpecChanged_iff: "podSpecChanged imp old new \<longleftrightarrow> podSpecDrift imp old new"
  by (simp add: podSpecChanged_def podSpecDrift_def podSpecChanged_loop_iff)

lemma createReceiveAdapter_with_prefix:
  "\<exists>ext. snd (createReceiveAdapter_with imp r src sinkURI eventSource tr1) =
     tr1 @ DeploymentsGet (src_Namespace src)
            (dep_Name (expectedDeployment imp r src sinkURI eventSource)) # ext"
  by (simp add: createReceiveAdapter_with_def Let_def split: reply.splits)

lemma createReceiveAdapter_extends:
  "\<exists>ext. snd (createReceiveAdapter imp r src sinkURI tr) = tr @ ext"
proof (cases "makeEventSource imp r src tr")
  case (Pair res tr1)
  then have t: "tr1 = tr @ [SecretsGet (credentialsNamespace src)
      (ref_Name (CouchDbCredentials (src_Spec src)))]"
    using makeEventSource_trace[of imp r src tr] by simp
  obtain eventSource err where res: "res = (eventSource, err)" by (cases res)
  show ?thesis
  proof (cases err)
    case None
    obtain ext where "snd (createReceiveAdapter_with imp r src sinkURI eventSource tr1) =
        tr1 @ DeploymentsGet (src_Namespace src)
            (dep_Name (expectedDeployment imp r src sinkURI eventSource)) # ext"
      using createReceiveAdapter_with_prefix by blast
    with Pair res None t show ?thesis by (simp add: createReceiveAdapter_def)
  next
    case (Some e)
    with Pair res t show ?thesis by (simp add: createReceiveAdapter_def)
  qed
qed

subsection \<open>Applying the diff\<close>

lemma delete_applyInOrder:
  "reconcileEventTypes_delete r ns toDelete tr =
     applyInOrder r (map (\<lambda>et. EventTypesDelete ns (et_Name et)) toDelete) tr"
  by (induction toDelete arbitrary: tr) (simp_all split: option.splits)

lemma create_applyInOrder:
  "reconcileEventTypes_create r ns toCreate tr =
     applyInOrder r (map (EventTypesCreate ns) toCreate) tr"
  by (induction toCreate arbitrary: tr) (simp_all split: option.splits)

lemma applyInOrder_append:
  "applyInOrder r (xs @ ys) tr =
     (case applyInOrder r xs tr of
        (Some err, tr') \<Rightarrow> (Some err, tr')
      | (None, tr') \<Rightarrow> applyInOrder r ys tr')"
  by (induction xs arbitrary: tr) (simp_all split: option.splits)

lemma applyInOrder_all_succeed:
  "(\<forall>i < length ops. answer r (tr @ take i ops) (ops ! i) = None) \<Longrightarrow>
     applyInOrder r ops tr = (None, tr @ ops)"
proof (induction ops arbitrary: tr)
  case Nil
  then show ?case by simp
next
  case (Cons op ops)
  from Cons.prems have 0: "answer r tr op = None" by fastforce
  have "\<forall>i < length ops. answer r ((tr @ [op]) @ take i ops) (ops ! i) = None"
  proof (intro allI impI)
    fix i assume "i < length ops"
    then have "Suc i < length (op # ops)" by simp
    with Cons.prems have "answer r (tr @ take (Suc i) (op # ops)) ((op # ops) ! Suc i) = None"
      by blast
    then show "answer r ((tr @ [op]) @ take i ops) (ops ! i) = None" by simp
  qed
  from Cons.IH[OF this] 0 show ?case by simp
qed

lemma applyInOrder_first_failure:
  "i < length ops \<Longrightarrow> answer r (tr @ take i ops) (ops ! i) = Some err \<Longrightarrow>
   (\<forall>j < i. answer r (tr @ take j ops) (ops ! j) = None) \<Longrightarrow>
     applyInOrder r ops tr = (Some err, tr @ take (Suc i) ops)"
proof (induction ops arbitrary: tr i)
  case Nil
  then show ?case by simp
next
  case (Cons op ops)
  show ?case
  proof (cases i)
    case 0
    with Cons.prems show ?thesis by simp
  next
    case (Suc k)
    with Cons.prems have 0: "answer r tr op = None" by fastforce
    from Suc Cons.prems have k: "k < length ops" by simp
    from Suc Cons.prems have f: "answer r ((tr @ [op]) @ take k ops) (ops ! k) = Some err" by simp
    have "\<forall>j < k. answer r ((tr @ [op]) @ take j ops) (ops ! j) = None"
    proof (intro allI impI)
      fix j assume "j < k"
      then have "Suc j < i" using Suc by simp
      with Cons.prems have "answer r (tr @ take (Suc j) (op # ops)) ((op # ops) ! Suc j) = None"
        by blast
      then show "answer r ((tr @ [op]) @ take j ops) (ops ! j) = None" by simp
    qed
    from Cons.IH[OF k f this] 0 Suc show ?thesis by simp
  qed
qed

lemma reconcileEventTypes_applyInOrder:
  assumes "getEventTypes imp r src tr = ((current, None), tr1)"
    and "makeEventTypes imp r h src tr1 = ((expected, None), tr2)"
    and "computeDiff current expected = (toCreate, toDelete)"
  shows "reconcileEventTypes imp r h src tr =
     applyInOrder r (map (\<lambda>et. EventTypesDelete (src_Namespace src) (et_Name et)) toDelete @
                     map (EventTypesCreate (src_Namespace src)) toCreate) tr2"
  using assms
  by (simp add: reconcileEventTypes_def applyInOrder_append delete_applyInOrder create_applyInOrder
      split: prod.splits option.splits)

lemma applyInOrder_extends: "\<exists>ext. snd (applyInOrder r ops tr) = tr @ ext"
proof (induction ops arbitrary: tr)
  case Nil
  then show ?case by simp
next
  case (Cons op ops)
  obtain ext where "snd (applyInOrder r ops (tr @ [op])) = (tr @ [op]) @ ext"
    using Cons.IH by blast
  then show ?case by (cases "answer r tr op") simp_all
qed

lemma getEventTypes_trace:
  "snd (getEventTypes imp r src tr) =
     tr @ [EventTypesList (src_Namespace src) (getLabelSelector imp src)]"
  by (simp add: getEventTypes_def Let_def split: reply.splits)

lemma makeEventTypes_extends: "\<exists>ext. snd (makeEventTypes imp r h src tr) = tr @ ext"
proof -
  have "snd (makeEventTypes imp r h src tr) = tr \<or>
        snd (makeEventTypes imp r h src tr) = snd (makeEventSource imp r src tr)"
    by (simp add: makeEventTypes_def split: option.splits prod.splits)
  then show ?thesis by (auto simp: makeEventSource_trace)
qed

lemma reconcileEventTypes_extends: "\<exists>ext. snd (reconcileEventTypes imp r h src tr) = tr @ ext"
proof -
  obtain current e1 tr1 where g: "getEventTypes imp r src tr = ((current, e1), tr1)"
    by (metis surj_pair)
  then have t1: "tr1 = tr @ [EventTypesList (src_Namespace src) (getLabelSelector imp src)]"
    using getEventTypes_trace[of imp r src tr] by simp
  obtain expected e2 tr2 where m: "makeEventTypes imp r h src tr1 = ((expected, e2), tr2)"
    by (metis surj_pair)
  obtain ext2 where t2: "tr2 = tr1 @ ext2"
    using makeEventTypes_extends[of imp r h src tr1] m by auto
  obtain toCreate toDelete where d: "computeDiff current expected = (toCreate, toDelete)"
    by (metis surj_pair)
  let ?ops = "map (\<lambda>et. EventTypesDelete (src_Namespace src) (et_Name et)) toDelete @
              map (EventTypesCreate (src_Namespace src)) toCreate"
  obtain ext3 where t3: "snd (applyInOrder r ?ops tr2) = tr2 @ ext3"
    using applyInOrder_extends by blast
  show ?thesis
  proof (cases e1)
    case (Some a)
    with g t1 show ?thesis by (simp add: reconcileEventTypes_def)
  next
    case None
    note e1 = this
    show ?thesis
    proof (cases e2)
      case (Some a)
      with g m e1 t1 t2 show ?thesis by (simp add: reconcileEventTypes_def)
    next
      case None
      have "reconcileEventTypes imp r h src tr = applyInOrder r ?ops tr2"
        using g m d e1 None
        by (simp add: reconcileEventTypes_def applyInOrder_append delete_applyInOrder
            create_applyInOrder split: prod.splits option.splits)
      with t1 t2 t3 show ?thesis by simp
    qed
  qed
qed

subsection \<open>The copy of the sink\<close>

lemma defaultNamespace_DeepCopy_Destinations:
  assumes "a < heap_nextDestination h"
  shows "heap_Destinations (defaultNamespace (snd (Destination_DeepCopy h sa))
            (fst (Destination_DeepCopy h sa)) namespace) a = heap_Destinations h a"
  using assms
  by (simp add: Destination_DeepCopy_def defaultNamespace_def Let_def split: option.splits)

lemma defaultNamespace_DeepCopy_ObjectReferences:
  assumes "p < heap_nextObjectReference h"
  shows "heap_ObjectReferences (defaultNamespace (snd (Destination_DeepCopy h sa))
            (fst (Destination_DeepCopy h sa)) namespace) p = heap_ObjectReferences h p"
  using assms
  by (simp add: Destination_DeepCopy_def defaultNamespace_def Let_def split: option.splits)

lemma defaultNamespace_DeepCopy_copy:
  assumes "dest_Ref (heap_Destinations h sa) = Some p"
    and "ref_Namespace (heap_ObjectReferences h p) = ''''"
    and "h2 = defaultNamespace (snd (Destination_DeepCopy h sa))
            (fst (Destination_DeepCopy h sa)) namespace"
  shows "heap_Destinations h2 (fst (Destination_DeepCopy h sa)) =
           (heap_Destinations h sa)\<lparr>dest_Ref := Some (heap_nextObjectReference h)\<rparr> \<and>
         heap_ObjectReferences h2 (heap_nextObjectReference h) =
           (heap_ObjectReferences h p)\<lparr>ref_Namespace := namespace\<rparr>"
  using assms
  by (simp add: Destination_DeepCopy_def defaultNamespace_def Let_def)

subsection \<open>The stages of the reconcile pass\<close>

lemma markStatus_fields:
  "src_Spec (markStatus source c) = src_Spec source"
  "src_Namespace (markStatus source c) = src_Namespace source"
  "src_Status (markStatus source c) = src_Status source @ [c]"
  by (simp_all add: markStatus_def)

lemma markSinkResolved_fields:
  "src_Spec (markSinkResolved sink source sinkURI) = src_Spec source"
  "src_Status (markSinkResolved sink source sinkURI) = src_Status source @ [MarkSink sinkURI] \<or>
   src_Status (markSinkResolved sink source sinkURI) =
     src_Status source @ [MarkSinkWarnRefDeprecated sinkURI]"
  by (simp_all add: markSinkResolved_def markStatus_fields)

lemma ReconcileKind_resolved_cases:
  obtains (deployment) ra err tr2 where
      "createReceiveAdapter imp r (markSinkResolved (heap_Destinations h2 sa) source sinkURI)
         sinkURI tr1 = ((ra, Some err), tr2)"
      "ReconcileKind_resolved imp r h2 sa source sinkURI tr1 =
         (Some err, markSinkResolved (heap_Destinations h2 sa) source sinkURI, h2, tr2)"
  | (eventTypes) ra tr2 event tr3 where
      "createReceiveAdapter imp r (markSinkResolved (heap_Destinations h2 sa) source sinkURI)
         sinkURI tr1 = ((ra, None), tr2)"
      "reconcileEventTypes imp r h2
         (markStatus (markSinkResolved (heap_Destinations h2 sa) source sinkURI)
            (PropagateDeploymentAvailability ra)) tr2 = (event, tr3)"
      "ReconcileKind_resolved imp r h2 sa source sinkURI tr1 =
         (event,
          markStatus (markStatus (markSinkResolved (heap_Destinations h2 sa) source sinkURI)
              (PropagateDeploymentAvailability ra))
            (case event of Some err \<Rightarrow> MarkNoEventTypes ''EventTypesReconcileFailed'' ''''
             | None \<Rightarrow> MarkEventTypes),
          h2, tr3)"
proof -
  let ?source1 = "markSinkResolved (heap_Destinations h2 sa) source sinkURI"
  obtain ra e tr2 where c: "createReceiveAdapter imp r ?source1 sinkURI tr1 = ((ra, e), tr2)"
    by (metis surj_pair)
  show thesis
  proof (cases e)
    case (Some err)
    with c have "ReconcileKind_resolved imp r h2 sa source sinkURI tr1 = (Some err, ?source1, h2, tr2)"
      by (simp add: ReconcileKind_resolved_def)
    with c Some show thesis by (auto intro: deployment)
  next
    case None
    obtain event tr3 where rt: "reconcileEventTypes imp r h2
         (markStatus ?source1 (PropagateDeploymentAvailability ra)) tr2 = (event, tr3)"
      by (metis surj_pair)
    with c None have "ReconcileKind_resolved imp r h2 sa source sinkURI tr1 =
         (event,
          markStatus (markStatus ?source1 (PropagateDeploymentAvailability ra))
            (case event of Some err \<Rightarrow> MarkNoEventTypes ''EventTypesReconcileFailed'' ''''
             | None \<Rightarrow> MarkEventTypes),
          h2, tr3)"
      by (simp add: ReconcileKind_resolved_def split: option.splits)
    with c None rt show thesis by (auto intro: eventTypes)
  qed
qed

lemma ReconcileKind_resolved_Spec:
  "src_Spec (fst (snd (ReconcileKind_resolved imp r h2 sa source sinkURI tr1))) = src_Spec source"
  by (cases rule: ReconcileKind_resolved_cases[of imp r h2 sa source sinkURI tr1])
    (simp_all add: markStatus_fields markSinkResolved_fields)

lemma ReconcileKind_resolved_heap:
  "fst (snd (snd (ReconcileKind_resolved imp r h2 sa source sinkURI tr1))) = h2"
  by (cases rule: ReconcileKind_resolved_cases[of imp r h2 sa source sinkURI tr1]) simp_all

lemma ReconcileKind_resolved_extends:
  "\<exists>ext. snd (snd (snd (ReconcileKind_resolved imp r h2 sa source sinkURI tr1))) = tr1 @ ext"
proof (cases rule: ReconcileKind_resolved_cases[of imp r h2 sa source sinkURI tr1])
  case (deployment ra err tr2)
  then show ?thesis
    using createReceiveAdapter_extends[of imp r
        "markSinkResolved (heap_Destinations h2 sa) source sinkURI" sinkURI tr1] by auto
next
  case (eventTypes ra tr2 event tr3)
  obtain ext2 where "tr2 = tr1 @ ext2"
    using createReceiveAdapter_extends[of imp r
        "markSinkResolved (heap_Destinations h2 sa) source sinkURI" sinkURI tr1] eventTypes(1)
    by auto
  moreover obtain ext3 where "tr3 = tr2 @ ext3"
    using reconcileEventTypes_extends[of imp r h2
        "markStatus (markSinkResolved (heap_Destinations h2 sa) source sinkURI)
            (PropagateDeploymentAvailability ra)" tr2] eventTypes(2)
    by auto
  ultimately show ?thesis using eventTypes(3) by simp
qed

lemma ReconcileKind_with_sink:
  assumes "Sink (src_Spec source) = Some sa"
    and "h2 = defaultNamespace (snd (Destination_DeepCopy h sa))
                  (fst (Destination_DeepCopy h sa)) (src_Namespace source)"
    and "dest = heap_Destinations h2 (fst (Destination_DeepCopy h sa))"
    and "pointee = map_option (heap_ObjectReferences h2) (dest_Ref dest)"
    and "source1 = markStatus source InitializeConditions"
  shows "ReconcileKind imp r h source tr =
      (case sinkResolver_URIFromDestination r tr dest pointee source1 of
         (sinkURI, Some err) \<Rightarrow>
           (Some (Errorf ''getting sink URI: %v'' [ArgError (Some err)]),
            markStatus source1 (MarkNoSink ''NotFound'' ''''), h2,
            tr @ [URIFromDestination dest pointee])
       | (sinkURI, None) \<Rightarrow>
           ReconcileKind_resolved imp r h2 sa source1 sinkURI
             (tr @ [URIFromDestination dest pointee]))"
  unfolding assms(2-5) using assms(1)
  by (simp add: ReconcileKind_def Let_def case_prod_beta markStatus_fields)

lemma ReconcileKind_Spec:
  "src_Spec (fst (snd (ReconcileKind imp r h source tr))) = src_Spec source"
proof (cases "Sink (src_Spec source)")
  case None
  then show ?thesis by (simp add: ReconcileKind_def markStatus_fields)
next
  case (Some sa)
  show ?thesis
    unfolding ReconcileKind_with_sink[OF Some refl refl refl refl]
    by (simp add: case_prod_beta ReconcileKind_resolved_Spec markStatus_fields
        split: option.splits)
qed

lemma ReconcileKind_heap:
  "fst (snd (snd (ReconcileKind imp r h source tr))) =
     (case Sink (src_Spec source) of
        None \<Rightarrow> h
      | Some sa \<Rightarrow> defaultNamespace (snd (Destination_DeepCopy h sa))
            (fst (Destination_DeepCopy h sa)) (src_Namespace source))"
proof (cases "Sink (src_Spec source)")
  case None
  then show ?thesis by (simp add: ReconcileKind_def markStatus_fields)
next
  case (Some sa)
  show ?thesis
    unfolding ReconcileKind_with_sink[OF Some refl refl refl refl]
    using Some by (simp add: case_prod_beta ReconcileKind_resolved_heap split: option.splits)
qed

lemma ReconcileKind_trace:
  assumes "Sink (src_Spec source) = Some sa"
    and "h2 = defaultNamespace (snd (Destination_DeepCopy h sa))
                  (fst (Destination_DeepCopy h sa)) (src_Namespace source)"
    and "dest = heap_Destinations h2 (fst (Destination_DeepCopy h sa))"
    and "pointee = map_option (heap_ObjectReferences h2) (dest_Ref dest)"
  shows "\<exists>ext. snd (snd (snd (ReconcileKind imp r h source tr))) =
     tr @ URIFromDestination dest pointee # ext"
proof -
  define source1 where "source1 = markStatus source InitializeConditions"
  note unfold = ReconcileKind_with_sink[OF assms source1_def, of imp r tr]
  obtain sinkURI e where res:
    "sinkResolver_URIFromDestination r tr dest pointee source1 = (sinkURI, e)"
    by (metis surj_pair)
  show ?thesis
  proof (cases e)
    case (Some err)
    with unfold res show ?thesis by simp
  next
    case None
    obtain ext where "snd (snd (snd (ReconcileKind_resolved imp r h2 sa source1 sinkURI
        (tr @ [URIFromDestination dest pointee])))) = (tr @ [URIFromDestination dest pointee]) @ ext"
      using ReconcileKind_resolved_extends by blast
    with unfold res None show ?thesis by simp
  qed
qed

subsection \<open>The record kept for a key\<close>






subsection \<open>Running the model on the examples\<close>

lemmas ex_defs =
  ex_imports_def ex_reconciler_def ex_reconciler_existing_def ex_reconciler_noSecret_def
  ex_reconciler_noUrl_def ex_reconciler_createFails_def ex_reconciler_listed_def
  ex_reconciler_listedCreateFails_def ex_source_def ex_secret_def ex_Parse_def ex_Hostname_def
  ex_MakeReceiveAdapter_def ex_MakeEventType_def ex_Labels_def ex_notFound_def
  ex_internalError_def ex_alreadyExists_def ex_sinkURI_def ex_expected_def ex_oldSink_def
  ex_withSidecar_def ex_sidecar_def ex_foreign_def ex_updated_def ex_deleted_def
  ex_updatedOld_def ex_retired_def ex_heap_def ex_heapService_def ex_noDestination_def
  ex_noReference_def ex_brokerReference_def

lemma ex_makeEventSource:
  "makeEventSource ex_imports (ex_reconciler_existing d) ex_source [] =
     ((''couchdb/orders'', None), [SecretsGet ''default'' ''couchdb-credentials''])"
  "makeEventSource ex_imports ex_reconciler ex_source [] =
     ((''couchdb/orders'', None), [SecretsGet ''default'' ''couchdb-credentials''])"
  "makeEventSource ex_imports ex_reconciler_createFails ex_source [] =
     ((''couchdb/orders'', None), [SecretsGet ''default'' ''couchdb-credentials''])"
  by (simp_all add: ex_defs makeEventSource_def Let_def)

lemma ex_expectedDeployment:
  "expectedDeployment ex_imports (ex_reconciler_existing d) ex_source ex_sinkURI ''couchdb/orders'' =
     ex_expected"
  "expectedDeployment ex_imports ex_reconciler_createFails ex_source ex_sinkURI ''couchdb/orders'' =
     ex_expected"
  by (simp_all add: ex_expected_def expectedDeployment_def ex_reconciler_existing_def
      ex_reconciler_createFails_def)

lemma ex_expected_fields:
  "dep_Name ex_expected = ''couchdbsource-orders''"
  "dep_OwnerReferences ex_expected = [\<lparr>owner_UID = ''uid-orders'', owner_Controller = Some True\<rparr>]"
  "src_Namespace ex_source = ''default''"
  "src_Name ex_source = ''orders''"
  "src_UID ex_source = ''uid-orders''"
  by (simp_all add: ex_defs expectedDeployment_def)

lemma ex_existing_Get: "Deployments_Get (ex_reconciler_existing d) tr ns name = Ok d"
  by (simp add: ex_reconciler_existing_def ex_reconciler_def)

lemma ex_existing_Update: "Deployments_Update (ex_reconciler_existing d) tr ns d' = Ok d'"
  by (simp add: ex_reconciler_existing_def ex_reconciler_def)

lemma markStatus_names:
  "src_Name (markStatus source c) = src_Name source"
  "src_UID (markStatus source c) = src_UID source"
  by (simp_all add: markStatus_def)

lemma markSinkResolved_names:
  "src_Name (markSinkResolved sink source sinkURI) = src_Name source"
  "src_Namespace (markSinkResolved sink source sinkURI) = src_Namespace source"
  "src_UID (markSinkResolved sink source sinkURI) = src_UID source"
  by (simp_all add: markSinkResolved_def markStatus_names markStatus_fields)



subsection \<open>C1: the diff of current and expected event types\<close>




subsection \<open>C2: drift of the pod spec\<close>

text \<open>
  Claim C2, as amended. When the existing deployment is controlled by the source,
  \<open>createReceiveAdapter\<close> issues one update, of the existing deployment with the
  expected pod spec, if the pod spec has drifted, and no create or update otherwise, in
  which case it returns the existing deployment. Drift is: the expected pod spec is not a
  deep derivative of the existing one, or the two have different numbers of containers,
  or the environment lists of the containers at some index differ. So a difference in a
  container's environment list alone brings an update, and a pod spec equal to the
  expected one, which is a deep derivative of itself, brings no write.
\<close>

theorem createReceiveAdapter_owned:
  assumes "makeEventSource imp r src tr = ((eventSource, None), tr1)"
    and "Deployments_Get r tr1 (src_Namespace src)
           (dep_Name (expectedDeployment imp r src sinkURI eventSource)) = Ok ra"
    and "IsControlledBy (dep_OwnerReferences ra) src"
  shows "let expected = expectedDeployment imp r src sinkURI eventSource;
             update = DeploymentsUpdate (src_Namespace src)
                        (ra\<lparr>dep_PodSpec := dep_PodSpec expected\<rparr>);
             result = createReceiveAdapter imp r src sinkURI tr
         in deploymentWrites (snd result) =
              deploymentWrites tr @
              (if podSpecDrift imp (dep_PodSpec ra) (dep_PodSpec expected) then [update] else []) \<and>
            (\<not> podSpecDrift imp (dep_PodSpec ra) (dep_PodSpec expected) \<longrightarrow>
               fst result = (Some ra, None)) \<and>
            ((\<exists>i \<in> {0..<length (pod_Containers (dep_PodSpec expected))}.
                 container_Env (pod_Containers (dep_PodSpec expected) ! i) \<noteq>
                 container_Env (pod_Containers (dep_PodSpec ra) ! i)) \<longrightarrow>
               deploymentWrites (snd result) = deploymentWrites tr @ [update]) \<and>
            (dep_PodSpec ra = dep_PodSpec expected \<and>
             equality_DeepDerivative imp (dep_PodSpec expected) (dep_PodSpec expected) \<longrightarrow>
               deploymentWrites (snd result) = deploymentWrites tr \<and> fst result = (Some ra, None))"
proof -
  let ?expected = "expectedDeployment imp r src sinkURI eventSource"
  let ?update = "DeploymentsUpdate (src_Namespace src) (ra\<lparr>dep_PodSpec := dep_PodSpec ?expected\<rparr>)"
  let ?result = "createReceiveAdapter imp r src sinkURI tr"
  let ?drift = "podSpecDrift imp (dep_PodSpec ra) (dep_PodSpec ?expected)"
  have w: "deploymentWrites tr1 = deploymentWrites tr"
    using assms(1) by (rule makeEventSource_writes)
  have cr: "?result = createReceiveAdapter_with imp r src sinkURI eventSource tr1"
    using assms(1) by (simp add: createReceiveAdapter_def)
  have a: "deploymentWrites (snd ?result) = deploymentWrites tr @ (if ?drift then [?update] else [])"
    unfolding cr using assms(2,3) w
    by (simp add: createReceiveAdapter_with_def Let_def podSpecChanged_iff deploymentWrites_def
        split: reply.splits)
  have b: "\<not> ?drift \<longrightarrow> fst ?result = (Some ra, None)"
    unfolding cr using assms(2,3)
    by (simp add: createReceiveAdapter_with_def Let_def podSpecChanged_iff)
  have c: "(\<exists>i \<in> {0..<length (pod_Containers (dep_PodSpec ?expected))}.
                 container_Env (pod_Containers (dep_PodSpec ?expected) ! i) \<noteq>
                 container_Env (pod_Containers (dep_PodSpec ra) ! i)) \<longrightarrow> ?drift"
    by (simp add: podSpecDrift_def)
  have d: "dep_PodSpec ra = dep_PodSpec ?expected \<and>
             equality_DeepDerivative imp (dep_PodSpec ?expected) (dep_PodSpec ?expected) \<longrightarrow> \<not> ?drift"
    by (simp add: podSpecDrift_def)
  from a b c d show ?thesis unfolding Let_def by auto
qed

text \<open>
  The example cluster with an existing deployment controlled by the source: one whose
  container still has the old sink URI in its environment, which is updated, and one
  equal to the expected deployment, which is left alone.
\<close>

theorem createReceiveAdapter_owned_witness:
  "IsControlledBy (dep_OwnerReferences ex_oldSink) ex_source \<and>
   deploymentWrites
     (snd (createReceiveAdapter ex_imports (ex_reconciler_existing ex_oldSink) ex_source
             ex_sinkURI [])) = [DeploymentsUpdate ''default'' ex_expected] \<and>
   IsControlledBy (dep_OwnerReferences ex_expected) ex_source \<and>
   deploymentWrites
     (snd (createReceiveAdapter ex_imports (ex_reconciler_existing ex_expected) ex_source
             ex_sinkURI [])) = [] \<and>
   fst (createReceiveAdapter ex_imports (ex_reconciler_existing ex_expected) ex_source
          ex_sinkURI []) = (Some ex_expected, None)"
proof -
  have g: "Deployments_Get (ex_reconciler_existing d)
             [SecretsGet ''default'' ''couchdb-credentials''] (src_Namespace ex_source)
             (dep_Name (expectedDeployment ex_imports (ex_reconciler_existing d)
                ex_source ex_sinkURI ''couchdb/orders'')) = Ok d" for d
    by (rule ex_existing_Get)
  have o1: "IsControlledBy (dep_OwnerReferences ex_oldSink) ex_source"
    by (simp add: IsControlledBy_def ex_defs expectedDeployment_def)
  have o2: "IsControlledBy (dep_OwnerReferences ex_expected) ex_source"
    by (simp add: IsControlledBy_def ex_expected_fields)
  have env: "\<exists>i \<in> {0..<length (pod_Containers (dep_PodSpec ex_expected))}.
      container_Env (pod_Containers (dep_PodSpec ex_expected) ! i) \<noteq>
      container_Env (pod_Containers (dep_PodSpec ex_oldSink) ! i)"
    by (simp add: ex_defs expectedDeployment_def)
  have refl: "equality_DeepDerivative ex_imports (dep_PodSpec ex_expected) (dep_PodSpec ex_expected)"
    by (simp add: ex_defs expectedDeployment_def DeepDerivative_PodSpec_def
        DeepDerivative_Container_def DeepDerivative_EnvVar_def DeepDerivative_string_def)
  have u: "ex_oldSink\<lparr>dep_PodSpec := dep_PodSpec ex_expected\<rparr> = ex_expected"
    by (simp add: ex_defs expectedDeployment_def)
  have w: "deploymentWrites [] = []"
    by (simp add: deploymentWrites_def)
  have d1: "podSpecDrift ex_imports (dep_PodSpec ex_oldSink) (dep_PodSpec ex_expected)"
    using env by (simp add: podSpecDrift_def)
  have d2: "\<not> podSpecDrift ex_imports (dep_PodSpec ex_expected) (dep_PodSpec ex_expected)"
    using refl by (simp add: podSpecDrift_def)
  from createReceiveAdapter_owned[OF ex_makeEventSource(1) g o1]
    createReceiveAdapter_owned[OF ex_makeEventSource(1) g o2]
    env refl o1 o2 u w d1 d2
  show ?thesis
    by (simp add: Let_def ex_expectedDeployment ex_expected_fields)
qed

text \<open>
  Against C2 as stated: the existing deployment has the expected container and a second
  one without environment. The expected pod spec is a deep derivative of the existing
  one, and its only container has the environment of the existing container at the same
  index; yet the deployment is updated, because the numbers of containers differ.
\<close>

theorem createReceiveAdapter_owned_counterexample:
  "IsControlledBy (dep_OwnerReferences ex_withSidecar) ex_source \<and>
   equality_DeepDerivative ex_imports (dep_PodSpec ex_expected) (dep_PodSpec ex_withSidecar) \<and>
   length (pod_Containers (dep_PodSpec ex_expected)) = 1 \<and>
   container_Env (pod_Containers (dep_PodSpec ex_expected) ! 0) =
     container_Env (pod_Containers (dep_PodSpec ex_withSidecar) ! 0) \<and>
   container_Env (pod_Containers (dep_PodSpec ex_withSidecar) ! 1) = [] \<and>
   deploymentWrites
     (snd (createReceiveAdapter ex_imports (ex_reconciler_existing ex_withSidecar) ex_source
             ex_sinkURI [])) = [DeploymentsUpdate ''default'' ex_expected]"
proof -
  have o: "IsControlledBy (dep_OwnerReferences ex_withSidecar) ex_source"
    by (simp add: IsControlledBy_def ex_withSidecar_def ex_expected_fields)
  have p: "dep_PodSpec ex_expected =
      \<lparr>pod_ServiceAccountName = ''couchdb-source'',
       pod_Containers =
         [\<lparr>container_Name = ''receive-adapter'',
           container_Image = ''couchdb-receive-adapter:latest'',
           container_Env =
             [\<lparr>env_Name = ''EVENT_SOURCE'', env_Value = ''couchdb/orders''\<rparr>,
              \<lparr>env_Name = ''SINK_URI'', env_Value = ''http://broker.default''\<rparr>]\<rparr>]\<rparr>"
    by (simp add: ex_defs expectedDeployment_def)
  have d: "equality_DeepDerivative ex_imports (dep_PodSpec ex_expected)
      (dep_PodSpec ex_withSidecar)"
    by (simp add: ex_imports_def ex_withSidecar_def p DeepDerivative_PodSpec_def
        DeepDerivative_Container_def DeepDerivative_EnvVar_def DeepDerivative_string_def)
  have l: "length (pod_Containers (dep_PodSpec ex_expected)) = 1"
    "container_Env (pod_Containers (dep_PodSpec ex_expected) ! 0) =
     container_Env (pod_Containers (dep_PodSpec ex_withSidecar) ! 0)"
    "container_Env (pod_Containers (dep_PodSpec ex_withSidecar) ! 1) = []"
    by (simp_all add: ex_withSidecar_def p ex_sidecar_def)
  have u: "ex_withSidecar\<lparr>dep_PodSpec := dep_PodSpec ex_expected\<rparr> = ex_expected"
    by (simp add: ex_withSidecar_def)
  have c: "podSpecChanged ex_imports (dep_PodSpec ex_withSidecar) (dep_PodSpec ex_expected)"
    using d by (simp add: podSpecChanged_def ex_withSidecar_def p)
  have "deploymentWrites
     (snd (createReceiveAdapter ex_imports (ex_reconciler_existing ex_withSidecar) ex_source
             ex_sinkURI [])) = [DeploymentsUpdate ''default'' ex_expected]"
    using o c u
    by (simp add: createReceiveAdapter_def createReceiveAdapter_with_def Let_def
        ex_makeEventSource ex_expectedDeployment ex_expected_fields ex_existing_Get
        ex_existing_Update deploymentWrites_def)
  with o d l show ?thesis by simp
qed

subsection \<open>C3: a deployment owned by someone else\<close>

text \<open>
  Claim C3, as amended. When the deployment found under the expected name is not
  controlled by the source, \<open>createReceiveAdapter\<close> returns no deployment and the
  error built by \<open>fmt.Errorf\<close> from the two names, and issues no create or update.
  The error is an ordinary one: it is not marked as permanent, so nothing in it tells
  the caller not to retry.
\<close>

theorem createReceiveAdapter_not_owned:
  assumes "makeEventSource imp r src tr = ((eventSource, None), tr1)"
    and "Deployments_Get r tr1 (src_Namespace src)
           (dep_Name (expectedDeployment imp r src sinkURI eventSource)) = Ok ra"
    and "\<not> IsControlledBy (dep_OwnerReferences ra) src"
  shows "fst (createReceiveAdapter imp r src sinkURI tr) =
           (None, Some (Errorf ''deployment %q is not owned by CouchDbSource %q''
                          [ArgString (dep_Name ra), ArgString (src_Name src)])) \<and>
         \<not> IsPermanentError (Errorf ''deployment %q is not owned by CouchDbSource %q''
                          [ArgString (dep_Name ra), ArgString (src_Name src)]) \<and>
         deploymentWrites (snd (createReceiveAdapter imp r src sinkURI tr)) = deploymentWrites tr"
proof -
  have "createReceiveAdapter imp r src sinkURI tr =
      ((None, Some (Errorf ''deployment %q is not owned by CouchDbSource %q''
                          [ArgString (dep_Name ra), ArgString (src_Name src)])),
       tr1 @ [DeploymentsGet (src_Namespace src)
           (dep_Name (expectedDeployment imp r src sinkURI eventSource))])"
    using assms by (simp add: createReceiveAdapter_def createReceiveAdapter_with_def Let_def)
  moreover have "deploymentWrites tr1 = deploymentWrites tr"
    using assms(1) by (rule makeEventSource_writes)
  ultimately show ?thesis
    by (simp add: deploymentWrites_append) (simp add: deploymentWrites_def)
qed

text \<open>
  The example cluster where the deployment \<open>couchdbsource-orders\<close> is controlled by
  another object.
\<close>

theorem createReceiveAdapter_not_owned_witness:
  "\<not> IsControlledBy (dep_OwnerReferences ex_foreign) ex_source \<and>
   createReceiveAdapter ex_imports (ex_reconciler_existing ex_foreign) ex_source ex_sinkURI [] =
     ((None, Some (Errorf ''deployment %q is not owned by CouchDbSource %q''
                     [ArgString ''couchdbsource-orders'', ArgString ''orders''])),
      [SecretsGet ''default'' ''couchdb-credentials'',
       DeploymentsGet ''default'' ''couchdbsource-orders''])"
proof -
  have g: "Deployments_Get (ex_reconciler_existing ex_foreign)
             [SecretsGet ''default'' ''couchdb-credentials''] (src_Namespace ex_source)
             (dep_Name (expectedDeployment ex_imports (ex_reconciler_existing ex_foreign)
                ex_source ex_sinkURI ''couchdb/orders'')) = Ok ex_foreign"
    by (simp add: ex_reconciler_existing_def ex_reconciler_def)
  have n: "\<not> IsControlledBy (dep_OwnerReferences ex_foreign) ex_source"
    by (simp add: IsControlledBy_def ex_foreign_def ex_expected_fields)
  have e: "createReceiveAdapter ex_imports (ex_reconciler_existing ex_foreign) ex_source
      ex_sinkURI [] =
     ((None, Some (Errorf ''deployment %q is not owned by CouchDbSource %q''
                     [ArgString ''couchdbsource-orders'', ArgString ''orders''])),
      [SecretsGet ''default'' ''couchdb-credentials'',
       DeploymentsGet ''default'' ''couchdbsource-orders''])"
    using n g
    by (simp add: createReceiveAdapter_def createReceiveAdapter_with_def Let_def
        ex_makeEventSource ex_expectedDeployment ex_expected_fields ex_foreign_def)
  from createReceiveAdapter_not_owned[OF ex_makeEventSource(1) g n] n e
  show ?thesis by simp
qed

text \<open>
  Against C3 as stated: the error returned in that cluster is not a permanent one.
\<close>

theorem createReceiveAdapter_not_owned_counterexample:
  "snd (fst (createReceiveAdapter ex_imports (ex_reconciler_existing ex_foreign) ex_source
               ex_sinkURI [])) =
     Some (Errorf ''deployment %q is not owned by CouchDbSource %q''
             [ArgString ''couchdbsource-orders'', ArgString ''orders'']) \<and>
   \<not> IsPermanentError (Errorf ''deployment %q is not owned by CouchDbSource %q''
                         [ArgString ''couchdbsource-orders'', ArgString ''orders''])"
  by (simp add: createReceiveAdapter_def createReceiveAdapter_with_def Let_def
      ex_makeEventSource ex_expectedDeployment ex_expected_fields ex_foreign_def
      IsControlledBy_def ex_existing_Get)

subsection \<open>C4: event types only for broker sinks\<close>

text \<open>
  Claim C4, as amended. If \<open>GetRef\<close> of the sink gives no reference, or one whose kind
  is not \<open>Broker\<close>, \<open>makeEventTypes\<close> returns the empty list and no error, and the
  diff of any current records against it deletes them all and creates nothing. If the
  kind is \<open>Broker\<close> and the event source can be computed, it returns two records, one
  made for the update event type and one for the delete event type, in this order. If
  the kind is \<open>Broker\<close> and \<open>makeEventSource\<close> fails, it returns that error and no
  record.
\<close>

theorem makeEventTypes_gated:
  "(map_option ref_Kind (sinkRef imp h src) \<noteq> Some ''Broker'' \<longrightarrow>
      makeEventTypes imp r h src tr = (([], None), tr) \<and>
      computeDiff current (fst (fst (makeEventTypes imp r h src tr))) = ([], current)) \<and>
   (map_option ref_Kind (sinkRef imp h src) = Some ''Broker'' \<longrightarrow>
      (\<forall>source tr1. makeEventSource imp r src tr = ((source, None), tr1) \<longrightarrow>
         makeEventTypes imp r h src tr =
           (([resources_MakeEventType imp
                \<lparr>etargs_Src = src, etargs_Type = CouchDbSourceUpdateEventType,
                 etargs_Source = source\<rparr>,
              resources_MakeEventType imp
                \<lparr>etargs_Src = src, etargs_Type = CouchDbSourceDeleteEventType,
                 etargs_Source = source\<rparr>], None), tr1)) \<and>
      (\<forall>source err tr1. makeEventSource imp r src tr = ((source, Some err), tr1) \<longrightarrow>
         makeEventTypes imp r h src tr = (([], Some err), tr1)))"
proof -
  have a: "makeEventTypes imp r h src tr = (([], None), tr)"
    if "map_option ref_Kind (sinkRef imp h src) \<noteq> Some ''Broker''"
    using that by (auto simp: makeEventTypes_def split: option.splits)
  have b: "makeEventTypes imp r h src tr =
           (([resources_MakeEventType imp
                \<lparr>etargs_Src = src, etargs_Type = CouchDbSourceUpdateEventType,
                 etargs_Source = source\<rparr>,
              resources_MakeEventType imp
                \<lparr>etargs_Src = src, etargs_Type = CouchDbSourceDeleteEventType,
                 etargs_Source = source\<rparr>], None), tr1)"
    if "map_option ref_Kind (sinkRef imp h src) = Some ''Broker''"
      and "makeEventSource imp r src tr = ((source, None), tr1)" for source tr1
    using that by (auto simp: makeEventTypes_def makeEventTypes_loop_eq couchDbEventTypes_def
        split: option.splits)
  have c: "makeEventTypes imp r h src tr = (([], Some err), tr1)"
    if "map_option ref_Kind (sinkRef imp h src) = Some ''Broker''"
      and "makeEventSource imp r src tr = ((source, Some err), tr1)" for source err tr1
    using that by (auto simp: makeEventTypes_def split: option.splits)
  from a b c show ?thesis by (simp add: computeDiff_nothing_expected)
qed

text \<open>
  The example source with its broker sink, where the two event types are expected; and
  with a sink that refers to a service, where nothing is expected and the two existing
  records are to be deleted.
\<close>

theorem makeEventTypes_gated_witness:
  "map_option ref_Kind (sinkRef ex_imports ex_heap ex_source) = Some ''Broker'' \<and>
   makeEventTypes ex_imports ex_reconciler ex_heap ex_source [] =
     (([ex_updated, ex_deleted], None), [SecretsGet ''default'' ''couchdb-credentials'']) \<and>
   map_option ref_Kind (sinkRef ex_imports ex_heapService ex_source) = Some ''Service'' \<and>
   makeEventTypes ex_imports ex_reconciler ex_heapService ex_source [] = (([], None), []) \<and>
   computeDiff [ex_updated, ex_deleted]
     (fst (fst (makeEventTypes ex_imports ex_reconciler ex_heapService ex_source []))) =
     ([], [ex_updated, ex_deleted])"
proof -
  have b: "map_option ref_Kind (sinkRef ex_imports ex_heap ex_source) = Some ''Broker''"
    by (simp add: sinkRef_def GetRef_def ex_imports_def ex_heap_def ex_source_def
        ex_noDestination_def ex_brokerReference_def)
  have s: "map_option ref_Kind (sinkRef ex_imports ex_heapService ex_source) = Some ''Service''"
    by (simp add: sinkRef_def GetRef_def ex_imports_def ex_heapService_def ex_heap_def
        ex_source_def ex_noDestination_def ex_brokerReference_def)
  have m: "resources_MakeEventType ex_imports
             \<lparr>etargs_Src = ex_source, etargs_Type = CouchDbSourceUpdateEventType,
              etargs_Source = ''couchdb/orders''\<rparr> = ex_updated"
    "resources_MakeEventType ex_imports
             \<lparr>etargs_Src = ex_source, etargs_Type = CouchDbSourceDeleteEventType,
              etargs_Source = ''couchdb/orders''\<rparr> = ex_deleted"
    by (simp_all add: ex_imports_def ex_MakeEventType_def ex_source_def ex_updated_def
        ex_deleted_def CouchDbSourceUpdateEventType_def CouchDbSourceDeleteEventType_def)
  from makeEventTypes_gated[of ex_imports ex_heap ex_source ex_reconciler "[]"
      "[ex_updated, ex_deleted]"] b ex_makeEventSource(2)
  have "makeEventTypes ex_imports ex_reconciler ex_heap ex_source [] =
     (([resources_MakeEventType ex_imports
             \<lparr>etargs_Src = ex_source, etargs_Type = CouchDbSourceUpdateEventType,
              etargs_Source = ''couchdb/orders''\<rparr>,
        resources_MakeEventType ex_imports
             \<lparr>etargs_Src = ex_source, etargs_Type = CouchDbSourceDeleteEventType,
              etargs_Source = ''couchdb/orders''\<rparr>], None),
      [SecretsGet ''default'' ''couchdb-credentials''])"
    by blast
  then have 1: "makeEventTypes ex_imports ex_reconciler ex_heap ex_source [] =
     (([ex_updated, ex_deleted], None), [SecretsGet ''default'' ''couchdb-credentials''])"
    by (simp only: m)
  have ns: "map_option ref_Kind (sinkRef ex_imports ex_heapService ex_source) \<noteq> Some ''Broker''"
    using s by auto
  from makeEventTypes_gated[of ex_imports ex_heapService ex_source ex_reconciler "[]"
      "[ex_updated, ex_deleted]"] ns
  have 2: "makeEventTypes ex_imports ex_reconciler ex_heapService ex_source [] = (([], None), [])"
    "computeDiff [ex_updated, ex_deleted]
     (fst (fst (makeEventTypes ex_imports ex_reconciler ex_heapService ex_source []))) =
     ([], [ex_updated, ex_deleted])"
    by blast+
  from b s 1 2 show ?thesis by simp
qed

text \<open>
  Against C4 as stated: the sink of the example source is a broker, the secret lookup
  fails, and \<open>makeEventTypes\<close> returns no record and the error of the lookup.
\<close>

theorem makeEventTypes_gated_counterexample:
  "map_option ref_Kind (sinkRef ex_imports ex_heap ex_source) = Some ''Broker'' \<and>
   fst (makeEventTypes ex_imports ex_reconciler_noSecret ex_heap ex_source []) =
     ([], Some ex_notFound)"
  by (simp add: makeEventTypes_def makeEventSource_def Let_def sinkRef_def GetRef_def
      ex_imports_def ex_heap_def ex_source_def ex_noDestination_def ex_brokerReference_def
      ex_reconciler_noSecret_def ex_reconciler_def)

subsection \<open>C5: applying the diff\<close>

text \<open>
  Claim C5. Once the current and the expected event types are known,
  \<open>reconcileEventTypes\<close> issues the deletes of \<open>toDelete\<close> and then the creates of
  \<open>toCreate\<close>, in order. If every call succeeds, all of them are issued and no error is
  returned. If the call at position \<open>i\<close> is the first that fails, its error is
  returned, the trace ends with that call, and nothing is issued after it: neither the
  remaining operations nor anything that would undo the earlier ones.
\<close>

theorem reconcileEventTypes_apply:
  assumes "getEventTypes imp r src tr = ((current, None), tr1)"
    and "makeEventTypes imp r h src tr1 = ((expected, None), tr2)"
    and "computeDiff current expected = (toCreate, toDelete)"
    and "ops = map (\<lambda>et. EventTypesDelete (src_Namespace src) (et_Name et)) toDelete @
               map (EventTypesCreate (src_Namespace src)) toCreate"
  shows "((\<forall>i < length ops. answer r (tr2 @ take i ops) (ops ! i) = None) \<longrightarrow>
            reconcileEventTypes imp r h src tr = (None, tr2 @ ops)) \<and>
         (\<forall>i err. i < length ops \<and> answer r (tr2 @ take i ops) (ops ! i) = Some err \<and>
            (\<forall>j < i. answer r (tr2 @ take j ops) (ops ! j) = None) \<longrightarrow>
            reconcileEventTypes imp r h src tr = (Some err, tr2 @ take (Suc i) ops))"
proof -
  have "reconcileEventTypes imp r h src tr = applyInOrder r ops tr2"
    unfolding assms(4) using assms(1-3) by (rule reconcileEventTypes_applyInOrder)
  then show ?thesis
    using applyInOrder_all_succeed[of ops r tr2] applyInOrder_first_failure[of _ ops r tr2]
    by auto
qed

text \<open>
  The example cluster with two existing event types, one out of date and one no longer
  expected: first with every call succeeding, then with the first create failing, after
  which the second create is not issued.
\<close>

theorem reconcileEventTypes_apply_witness:
  "reconcileEventTypes ex_imports ex_reconciler_listed ex_heap ex_source [] =
     (None,
      [EventTypesList ''default'' (ex_Labels ''orders''),
       SecretsGet ''default'' ''couchdb-credentials'',
       EventTypesDelete ''default'' ''updated-orders'',
       EventTypesDelete ''default'' ''created-orders'',
       EventTypesCreate ''default'' ex_updated,
       EventTypesCreate ''default'' ex_deleted]) \<and>
   reconcileEventTypes ex_imports ex_reconciler_listedCreateFails ex_heap ex_source [] =
     (Some ex_alreadyExists,
      [EventTypesList ''default'' (ex_Labels ''orders''),
       SecretsGet ''default'' ''couchdb-credentials'',
       EventTypesDelete ''default'' ''updated-orders'',
       EventTypesDelete ''default'' ''created-orders'',
       EventTypesCreate ''default'' ex_updated])"
proof -
  define ops where "ops =
      map (\<lambda>et. EventTypesDelete (src_Namespace ex_source) (et_Name et))
        [ex_updatedOld, ex_retired] @
      map (EventTypesCreate (src_Namespace ex_source)) [ex_updated, ex_deleted]"
  define tr2 where "tr2 = [EventTypesList ''default'' (ex_Labels ''orders''),
       SecretsGet ''default'' ''couchdb-credentials'']"
  have ops: "ops = [EventTypesDelete ''default'' ''updated-orders'',
       EventTypesDelete ''default'' ''created-orders'',
       EventTypesCreate ''default'' ex_updated,
       EventTypesCreate ''default'' ex_deleted]"
    by (simp add: ops_def ex_source_def ex_updatedOld_def ex_updated_def ex_retired_def)
  have g: "getEventTypes ex_imports r ex_source [] =
      (([ex_updatedOld, ex_retired], None), [EventTypesList ''default'' (ex_Labels ''orders'')])"
    if "eventTypeLister_List r = (\<lambda>tr ns selector. Ok [ex_updatedOld, ex_retired])" for r
    using that
    by (simp add: getEventTypes_def getLabelSelector_def Let_def IsControlledBy_def
        ex_imports_def ex_source_def ex_updatedOld_def ex_updated_def ex_retired_def)
  have m: "makeEventTypes ex_imports r ex_heap ex_source
        [EventTypesList ''default'' (ex_Labels ''orders'')] = (([ex_updated, ex_deleted], None), tr2)"
    if "Secrets_Get r = (\<lambda>tr ns name. Ok ex_secret)" for r
    using that
    by (simp add: makeEventTypes_def makeEventSource_def Let_def sinkRef_def GetRef_def
        couchDbEventTypes_def CouchDbSourceUpdateEventType_def CouchDbSourceDeleteEventType_def
        ex_imports_def ex_heap_def ex_source_def ex_noDestination_def ex_brokerReference_def
        ex_secret_def ex_Parse_def ex_Hostname_def ex_MakeEventType_def ex_updated_def
        ex_deleted_def tr2_def)
  have d: "computeDiff [ex_updatedOld, ex_retired] [ex_updated, ex_deleted] =
      ([ex_updated, ex_deleted], [ex_updatedOld, ex_retired])"
    by (simp add: computeDiff_def asMap_def keyFromEventType_def ex_updatedOld_def
        ex_updated_def ex_retired_def ex_deleted_def)
  have l: "eventTypeLister_List ex_reconciler_listed =
        (\<lambda>tr ns selector. Ok [ex_updatedOld, ex_retired])"
      "Secrets_Get ex_reconciler_listed = (\<lambda>tr ns name. Ok ex_secret)"
      "eventTypeLister_List ex_reconciler_listedCreateFails =
        (\<lambda>tr ns selector. Ok [ex_updatedOld, ex_retired])"
      "Secrets_Get ex_reconciler_listedCreateFails = (\<lambda>tr ns name. Ok ex_secret)"
    by (simp_all add: ex_reconciler_listed_def ex_reconciler_listedCreateFails_def
        ex_reconciler_def)
  have ok: "answer ex_reconciler_listed tr operation = None" for tr operation
    by (cases operation)
      (simp_all add: ex_reconciler_listed_def ex_reconciler_def)
  have del: "EventTypes_Delete ex_reconciler_listedCreateFails tr ns name = None"
    for tr ns name
    by (simp add: ex_reconciler_listedCreateFails_def ex_reconciler_listed_def ex_reconciler_def)
  have fails: "EventTypes_Create ex_reconciler_listedCreateFails tr ns ex_updated =
      Failed None ex_alreadyExists" for tr ns
    by (simp add: ex_reconciler_listedCreateFails_def ex_reconciler_listed_def ex_reconciler_def
        ex_updated_def)
  have first: "\<forall>j < 2. answer ex_reconciler_listedCreateFails (tr2 @ take j ops) (ops ! j) = None"
    by (simp add: ops less_Suc_eq numeral_2_eq_2 del)
  have at: "(2::nat) < length ops \<and>
      answer ex_reconciler_listedCreateFails (tr2 @ take 2 ops) (ops ! 2) = Some ex_alreadyExists"
    by (simp add: ops fails)
  from reconcileEventTypes_apply[OF g[OF l(1)] m[OF l(2)] d ops_def] ok
  have 1: "reconcileEventTypes ex_imports ex_reconciler_listed ex_heap ex_source [] =
      (None, tr2 @ ops)"
    by simp
  from reconcileEventTypes_apply[OF g[OF l(3)] m[OF l(4)] d ops_def] first at
  have 2: "reconcileEventTypes ex_imports ex_reconciler_listedCreateFails ex_heap ex_source [] =
      (Some ex_alreadyExists, tr2 @ take (Suc 2) ops)"
    by blast
  from 1 2 show ?thesis by (simp add: ops tr2_def)
qed

subsection \<open>C6: a source without a sink\<close>

text \<open>
  Claim C6, as amended. For a source whose \<open>Spec.Sink\<close> is \<open>nil\<close>,
  \<open>ReconcileKind\<close> initialises the conditions, marks \<open>MarkNoSink\<close> with the reason
  \<open>SinkMissing\<close>, and returns the error \<open>spec.sink missing\<close> without any call to the
  resolver, the clients or the lister and without touching the heap. The error is an
  ordinary one: it is not marked as permanent.
\<close>

theorem ReconcileKind_no_sink:
  assumes "Sink (src_Spec source) = None"
  shows "ReconcileKind imp r h source tr =
           (Some (Errorf ''spec.sink missing'' []),
            source\<lparr>src_Status := src_Status source @
                      [InitializeConditions, MarkNoSink ''SinkMissing'' '''']\<rparr>, h, tr) \<and>
         \<not> IsPermanentError (Errorf ''spec.sink missing'' [])"
  using assms by (simp add: ReconcileKind_def markStatus_def)

text \<open>The example source without a sink: the pass stops at once, with an ordinary error.\<close>

theorem ReconcileKind_no_sink_witness:
  "Sink (src_Spec ex_sourceNoSink) = None \<and>
   ReconcileKind ex_imports ex_reconciler ex_heap ex_sourceNoSink [] =
     (Some (Errorf ''spec.sink missing'' []),
      ex_sourceNoSink\<lparr>src_Status := [InitializeConditions, MarkNoSink ''SinkMissing'' '''']\<rparr>,
      ex_heap, [])"
proof -
  have h: "Sink (src_Spec ex_sourceNoSink) = None"
    by (simp add: ex_sourceNoSink_def)
  have s: "src_Status ex_sourceNoSink = []"
    by (simp add: ex_sourceNoSink_def ex_source_def)
  from ReconcileKind_no_sink[OF h, of ex_imports ex_reconciler ex_heap "[]"] h s
  show ?thesis by simp
qed

text \<open>
  Against C6 as stated: the error returned for the example source without a sink is not
  a permanent one.
\<close>

theorem ReconcileKind_no_sink_counterexample:
  "fst (ReconcileKind ex_imports ex_reconciler ex_heap ex_sourceNoSink []) =
     Some (Errorf ''spec.sink missing'' []) \<and>
   \<not> IsPermanentError (Errorf ''spec.sink missing'' [])"
  by (simp add: ReconcileKind_def markStatus_def ex_sourceNoSink_def ex_source_def)

subsection \<open>C7: the namespace default stays local\<close>

text \<open>
  Claim C7. When the pointers of \<open>source.Spec.Sink\<close> point to allocated cells,
  \<open>ReconcileKind\<close> leaves the spec of the source as it was, and what the sink pointer
  leads to in the final heap is what it led to at entry. When the reference of the sink
  has an empty namespace, the first call of the pass is the resolution of a copy of the
  destination whose reference carries the namespace of the source.
\<close>

theorem ReconcileKind_sink_unchanged:
  assumes "sinkAllocated h source"
    and "ReconcileKind imp r h source tr = (event, source', h', tr')"
  shows "src_Spec source' = src_Spec source \<and>
         sinkValue h' source' = sinkValue h source \<and>
         (\<forall>sa p. Sink (src_Spec source) = Some sa \<and>
            dest_Ref (heap_Destinations h sa) = Some p \<and>
            ref_Namespace (heap_ObjectReferences h p) = '''' \<longrightarrow>
            take (Suc (length tr)) tr' =
              tr @ [URIFromDestination
                      ((heap_Destinations h sa)\<lparr>dest_Ref := Some (heap_nextObjectReference h)\<rparr>)
                      (Some ((heap_ObjectReferences h p)\<lparr>ref_Namespace := src_Namespace source\<rparr>))])"
proof -
  from assms(2) have s: "src_Spec source' = src_Spec source"
    using ReconcileKind_Spec[of imp r h source tr] by simp
  from assms(2) have h': "h' = (case Sink (src_Spec source) of
        None \<Rightarrow> h
      | Some sa \<Rightarrow> defaultNamespace (snd (Destination_DeepCopy h sa))
            (fst (Destination_DeepCopy h sa)) (src_Namespace source))"
    using ReconcileKind_heap[of imp r h source tr] by simp
  have v: "sinkValue h' source' = sinkValue h source"
  proof (cases "Sink (src_Spec source)")
    case None
    with s show ?thesis by (simp add: sinkValue_def)
  next
    case (Some sa)
    with assms(1) have a: "sa < heap_nextDestination h" by (simp add: sinkAllocated_def)
    with Some h' have d: "heap_Destinations h' sa = heap_Destinations h sa"
      by (simp add: defaultNamespace_DeepCopy_Destinations)
    show ?thesis
    proof (cases "dest_Ref (heap_Destinations h sa)")
      case None
      with Some s d show ?thesis by (simp add: sinkValue_def)
    next
      case (Some p)
      with \<open>Sink (src_Spec source) = Some sa\<close> assms(1) have "p < heap_nextObjectReference h"
        by (simp add: sinkAllocated_def)
      with \<open>Sink (src_Spec source) = Some sa\<close> h'
      have "heap_ObjectReferences h' p = heap_ObjectReferences h p"
        by (simp add: defaultNamespace_DeepCopy_ObjectReferences)
      with Some \<open>Sink (src_Spec source) = Some sa\<close> s d show ?thesis by (simp add: sinkValue_def)
    qed
  qed
  have t: "take (Suc (length tr)) tr' =
              tr @ [URIFromDestination
                      ((heap_Destinations h sa)\<lparr>dest_Ref := Some (heap_nextObjectReference h)\<rparr>)
                      (Some ((heap_ObjectReferences h p)\<lparr>ref_Namespace := src_Namespace source\<rparr>))]"
    if sa: "Sink (src_Spec source) = Some sa" and p: "dest_Ref (heap_Destinations h sa) = Some p"
      and e: "ref_Namespace (heap_ObjectReferences h p) = ''''" for sa p
  proof -
    define h2 where "h2 = defaultNamespace (snd (Destination_DeepCopy h sa))
            (fst (Destination_DeepCopy h sa)) (src_Namespace source)"
    define dest where "dest = heap_Destinations h2 (fst (Destination_DeepCopy h sa))"
    from defaultNamespace_DeepCopy_copy[OF p e h2_def]
    have dest: "dest = (heap_Destinations h sa)\<lparr>dest_Ref := Some (heap_nextObjectReference h)\<rparr>"
      and ref: "heap_ObjectReferences h2 (heap_nextObjectReference h) =
           (heap_ObjectReferences h p)\<lparr>ref_Namespace := src_Namespace source\<rparr>"
      by (simp_all add: dest_def)
    obtain ext where "snd (snd (snd (ReconcileKind imp r h source tr))) =
        tr @ URIFromDestination dest (map_option (heap_ObjectReferences h2) (dest_Ref dest)) # ext"
      using ReconcileKind_trace[OF sa h2_def dest_def refl] by blast
    with assms(2) have "tr' = tr @ URIFromDestination dest
        (map_option (heap_ObjectReferences h2) (dest_Ref dest)) # ext" by simp
    then show ?thesis by (simp add: dest ref)
  qed
  from s v t show ?thesis by blast
qed

text \<open>
  The example source, whose sink refers to the broker \<open>default\<close> without a namespace:
  the resolver is given the copy at the new addresses, with the namespace \<open>default\<close>
  of the source, and the sink of the source still has the empty namespace afterwards.
\<close>

theorem ReconcileKind_sink_unchanged_witness:
  "sinkAllocated ex_heap ex_source \<and>
   src_Spec (fst (snd (ReconcileKind ex_imports ex_reconciler ex_heap ex_source []))) =
     src_Spec ex_source \<and>
   sinkValue (fst (snd (snd (ReconcileKind ex_imports ex_reconciler ex_heap ex_source []))))
       (fst (snd (ReconcileKind ex_imports ex_reconciler ex_heap ex_source []))) =
     Some (ex_noDestination\<lparr>dest_Ref := Some 0\<rparr>, Some ex_brokerReference) \<and>
   take 1 (snd (snd (snd (ReconcileKind ex_imports ex_reconciler ex_heap ex_source [])))) =
     [URIFromDestination (ex_noDestination\<lparr>dest_Ref := Some 1\<rparr>)
        (Some (ex_brokerReference\<lparr>ref_Namespace := ''default''\<rparr>))]"
proof -
  let ?result = "ReconcileKind ex_imports ex_reconciler ex_heap ex_source []"
  have a: "sinkAllocated ex_heap ex_source"
    by (simp add: sinkAllocated_def ex_heap_def ex_source_def)
  have e: "?result = (fst ?result, fst (snd ?result), fst (snd (snd ?result)),
      snd (snd (snd ?result)))"
    by simp
  have v: "sinkValue ex_heap ex_source =
      Some (ex_noDestination\<lparr>dest_Ref := Some 0\<rparr>, Some ex_brokerReference)"
    by (simp add: sinkValue_def ex_heap_def ex_source_def)
  have c: "Sink (src_Spec ex_source) = Some 0 \<and>
      dest_Ref (heap_Destinations ex_heap 0) = Some 0 \<and>
      ref_Namespace (heap_ObjectReferences ex_heap 0) = ''''"
    by (simp add: ex_heap_def ex_source_def ex_brokerReference_def)
  have f: "heap_Destinations ex_heap 0 = ex_noDestination\<lparr>dest_Ref := Some 0\<rparr>"
    "heap_ObjectReferences ex_heap 0 = ex_brokerReference"
    "heap_nextObjectReference ex_heap = 1"
    "src_Namespace ex_source = ''default''"
    by (simp_all add: ex_heap_def ex_source_def)
  note t = ReconcileKind_sink_unchanged[OF a e]
  from t have 1: "src_Spec (fst (snd ?result)) = src_Spec ex_source"
    and 2: "sinkValue (fst (snd (snd ?result))) (fst (snd ?result)) = sinkValue ex_heap ex_source"
    by blast+
  from t c have "take (Suc (length ([]::call list))) (snd (snd (snd ?result))) =
      [] @ [URIFromDestination
              ((heap_Destinations ex_heap 0)\<lparr>dest_Ref := Some (heap_nextObjectReference ex_heap)\<rparr>)
              (Some ((heap_ObjectReferences ex_heap 0)\<lparr>ref_Namespace := src_Namespace ex_source\<rparr>))]"
    by blast
  then have 3: "take 1 (snd (snd (snd ?result))) =
     [URIFromDestination (ex_noDestination\<lparr>dest_Ref := Some 1\<rparr>)
        (Some (ex_brokerReference\<lparr>ref_Namespace := ''default''\<rparr>))]"
    by (simp add: f)
  from a 1 2 3 v show ?thesis by simp
qed

subsection \<open>C8: a status update on every failure\<close>


subsection \<open>C9: a secret without a url\<close>

text \<open>
  Claim C9. If the lookup of the credentials secret succeeds and its data has no
  \<open>url\<close> key, \<open>makeEventSource\<close> returns the empty string and no error, and
  \<open>createReceiveAdapter\<close> goes on to look up the deployment expected for the empty
  event source.
\<close>

theorem makeEventSource_missing_url:
  assumes "Secrets_Get r tr (credentialsNamespace src)
             (ref_Name (CouchDbCredentials (src_Spec src))) = Ok secret"
    and "secret_Data secret ''url'' = None"
  shows "makeEventSource imp r src tr =
           (('''', None),
            tr @ [SecretsGet (credentialsNamespace src)
                    (ref_Name (CouchDbCredentials (src_Spec src)))]) \<and>
         take (length tr + 2) (snd (createReceiveAdapter imp r src sinkURI tr)) =
           tr @ [SecretsGet (credentialsNamespace src)
                   (ref_Name (CouchDbCredentials (src_Spec src))),
                 DeploymentsGet (src_Namespace src)
                   (dep_Name (expectedDeployment imp r src sinkURI ''''))]"
proof -
  let ?tr1 = "tr @ [SecretsGet (credentialsNamespace src)
                    (ref_Name (CouchDbCredentials (src_Spec src)))]"
  have mk: "makeEventSource imp r src tr = (('''', None), ?tr1)"
    using assms by (simp add: makeEventSource_def credentialsNamespace_def Let_def)
  then have cr: "createReceiveAdapter imp r src sinkURI tr =
      createReceiveAdapter_with imp r src sinkURI '''' ?tr1"
    by (simp add: createReceiveAdapter_def)
  obtain ext where "snd (createReceiveAdapter_with imp r src sinkURI '''' ?tr1) =
      ?tr1 @ DeploymentsGet (src_Namespace src)
            (dep_Name (expectedDeployment imp r src sinkURI '''')) # ext"
    using createReceiveAdapter_with_prefix by blast
  with cr have "take (length tr + 2) (snd (createReceiveAdapter imp r src sinkURI tr)) =
      tr @ [SecretsGet (credentialsNamespace src) (ref_Name (CouchDbCredentials (src_Spec src))),
            DeploymentsGet (src_Namespace src)
              (dep_Name (expectedDeployment imp r src sinkURI ''''))]"
    by simp
  with mk show ?thesis by simp
qed

text \<open>The example cluster with a secret that has no \<open>url\<close> key.\<close>

theorem makeEventSource_missing_url_witness:
  "makeEventSource ex_imports ex_reconciler_noUrl ex_source [] =
     (('''', None), [SecretsGet ''default'' ''couchdb-credentials'']) \<and>
   take 2 (snd (createReceiveAdapter ex_imports ex_reconciler_noUrl ex_source ex_sinkURI [])) =
     [SecretsGet ''default'' ''couchdb-credentials'',
      DeploymentsGet ''default'' ''couchdbsource-orders'']"
proof -
  have g: "Secrets_Get ex_reconciler_noUrl [] (credentialsNamespace ex_source)
             (ref_Name (CouchDbCredentials (src_Spec ex_source))) =
           Ok (ex_secret\<lparr>secret_Data := Map.empty\<rparr>)"
    by (simp add: ex_reconciler_noUrl_def ex_reconciler_def)
  have d: "secret_Data (ex_secret\<lparr>secret_Data := Map.empty\<rparr>) ''url'' = None"
    by simp
  have n: "credentialsNamespace ex_source = ''default''"
    "ref_Name (CouchDbCredentials (src_Spec ex_source)) = ''couchdb-credentials''"
    "src_Namespace ex_source = ''default''"
    "dep_Name (expectedDeployment ex_imports ex_reconciler_noUrl ex_source ex_sinkURI '''') =
       ''couchdbsource-orders''"
    by (simp_all add: credentialsNamespace_def ex_source_def expectedDeployment_def
        ex_imports_def ex_MakeReceiveAdapter_def)
  from makeEventSource_missing_url[OF g d, of ex_imports ex_sinkURI] n
  show ?thesis by (simp add: numeral_2_eq_2)
qed

subsection \<open>C10: the created event\<close>

text \<open>
  Claim C10. When the lookup of the deployment answers NotFound,
  \<open>createReceiveAdapter\<close> issues the create, then records the \<open>Created\<close> event with
  the error of the create as its argument, whether the create failed or not, and returns
  the deployment and the error of the create as they are.
\<close>

theorem createReceiveAdapter_not_found:
  assumes "makeEventSource imp r src tr = ((eventSource, None), tr1)"
    and "Deployments_Get r tr1 (src_Namespace src)
           (dep_Name (expectedDeployment imp r src sinkURI eventSource)) = Failed ra err"
    and "IsNotFound (Some err)"
  shows "let expected = expectedDeployment imp r src sinkURI eventSource;
             ns = src_Namespace src;
             created = Deployments_Create r (tr1 @ [DeploymentsGet ns (dep_Name expected)])
                         ns expected
         in createReceiveAdapter imp r src sinkURI tr =
              ((reply_val created, reply_err created),
               tr1 @ [DeploymentsGet ns (dep_Name expected),
                      DeploymentsCreate ns expected,
                      Eventf (src_Name src) EventTypeNormal couchdbsourceDeploymentCreated
                        ''Deployment created, error: %v'' [ArgError (reply_err created)]])"
  using assms by (simp add: createReceiveAdapter_def createReceiveAdapter_with_def Let_def)

text \<open>The example cluster, where no deployment exists, with a create that fails.\<close>

theorem createReceiveAdapter_not_found_witness:
  "IsNotFound (Some ex_notFound) \<and>
   createReceiveAdapter ex_imports ex_reconciler_createFails ex_source ex_sinkURI [] =
     ((None, Some ex_internalError),
      [SecretsGet ''default'' ''couchdb-credentials'',
       DeploymentsGet ''default'' ''couchdbsource-orders'',
       DeploymentsCreate ''default'' ex_expected,
       Eventf ''orders'' ''Normal'' ''CouchDbSourceDeploymentCreated''
         ''Deployment created, error: %v'' [ArgError (Some ex_internalError)]])"
proof -
  have g: "Deployments_Get ex_reconciler_createFails
             [SecretsGet ''default'' ''couchdb-credentials''] (src_Namespace ex_source)
             (dep_Name (expectedDeployment ex_imports ex_reconciler_createFails
                ex_source ex_sinkURI ''couchdb/orders'')) = Failed None ex_notFound"
    by (simp add: ex_reconciler_createFails_def ex_reconciler_def)
  have n: "IsNotFound (Some ex_notFound)"
    by (simp add: ex_notFound_def)
  have c: "Deployments_Create ex_reconciler_createFails tr ns d = Failed None ex_internalError"
    for tr ns d
    by (simp add: ex_reconciler_createFails_def ex_reconciler_def)
  from createReceiveAdapter_not_found[OF ex_makeEventSource(3) g n] n
  show ?thesis
    by (simp add: Let_def c ex_expectedDeployment ex_expected_fields EventTypeNormal_def
        couchdbsourceDeploymentCreated_def)
qed

end
